theory Spec2Isabelle
  imports Main
begin

section \<open>Data model\<close>

text \<open>
  The request as the middleware reads it: \<open>method_of\<close> is \<open>req.method\<close> (\<open>None\<close> when
  \<open>typeof req.method\<close> is not \<open>'string'\<close>) and \<open>cookie\<close> is \<open>req.headers.cookie\<close>
  (\<open>None\<close> when it is \<open>undefined\<close>).
\<close>

record request =
  method_of :: "string option"
  cookie :: "string option"

text \<open>
  \<open>CookieSerializeOptions\<close> of the \<open>cookie\<close> package; every attribute is optional.
\<close>

datatype same_site = Lax | Strict | NoneSite | SameSiteBool bool

record cookie_options =
  httpOnly :: "bool option"
  path :: "string option"
  sameSite :: "same_site option"
  secure :: "bool option"
  domain :: "string option"
  maxAge :: "int option"

text \<open>
  A value that is thrown (or with which a promise rejects). An object is seen through the
  two properties the catch block of \<open>csrf\<close> reads, \<open>status\<close> and \<open>message\<close>, each
  \<open>None\<close> when \<open>undefined\<close>; \<open>Nullish\<close> is \<open>null\<close> or \<open>undefined\<close>, on which a
  property read raises a \<open>TypeError\<close>.
\<close>

datatype thrown = ErrorObject "int option" "string option" | Nullish

text \<open>\<open>class HttpError\<close>: \<open>constructor(status: number = 403, message: string)\<close>.\<close>

definition HttpError :: "int option \<Rightarrow> string \<Rightarrow> thrown" where
  "HttpError status message =
     ErrorObject (Some (case status of None \<Rightarrow> 403 | Some s \<Rightarrow> s)) (Some message)"

text \<open>
  What a middleware does is the list of the calls it makes, in order:
  \<open>res.setHeader(name, value)\<close> with a string or an array of strings,
  \<open>res.status(code)\<close>, \<open>.json({ message })\<close>, and \<open>Invoke\<close> for
  \<open>handler(req, res)\<close>, whose own effects on \<open>res\<close> are the handler's business.
\<close>

datatype header_value = Single string | Multiple "string list"

datatype call = SetHeader string header_value | Status int | Json "string option" | Invoke

text \<open>
  The caller-supplied handler: given the request and the response object as the calls made
  on it so far have left it, it returns normally (\<open>None\<close>) or throws.
\<close>

type_synonym handler = "request \<Rightarrow> call list \<Rightarrow> thrown option"

text \<open>
  How the promise of a wrapped handler settles. \<open>RejectedTypeError\<close> is the
  \<open>TypeError\<close> of the engine when the catch block reads \<open>.status\<close> of \<open>null\<close> or
  \<open>undefined\<close>.
\<close>

datatype completion = Resolved | Rejected thrown | RejectedTypeError

record 'r outcome =
  calls :: "call list"
  rng :: 'r
  completion :: completion

text \<open>
  The packages the middleware imports, taken as parameters at their declared signatures:
  \<open>parse\<close> and \<open>serialize\<close> of \<open>cookie\<close>, \<open>sign\<close> and \<open>unsign\<close> of
  \<open>cookie-signature\<close> (\<open>unsign\<close> returns \<open>false\<close>, here \<open>None\<close>, on a bad
  signature), and the \<open>Tokens\<close> instance \<open>createToken\<close> of \<open>csrf\<close>. The last one draws
  random bytes: \<open>'r\<close> is the state of the random source, threaded through \<open>secretSync\<close>
  and \<open>create\<close>. The object that \<open>parse\<close> returns is the map from the names of its
  own properties to their values, so \<open>cookie[name]\<close> is \<open>parse p c name\<close>.
  \<open>serialize\<close> validates the name, the value and the attributes it is given and throws
  a \<open>TypeError\<close> on one it refuses (\<open>Inl\<close>); the name and the attributes come from
  the configuration as they are. The other calls get arguments of the declared types that
  they accept: strings for \<open>parse\<close>, \<open>sign\<close>, \<open>unsign\<close> and \<open>verify\<close>, and a
  non-empty secret for \<open>create\<close>.
\<close>

record 'r prims =
  parse :: "string \<Rightarrow> (string \<rightharpoonup> string)"
  serialize :: "string \<Rightarrow> string \<Rightarrow> cookie_options \<Rightarrow> thrown + string"
  sign :: "string \<Rightarrow> string \<Rightarrow> string"
  unsign :: "string \<Rightarrow> string \<Rightarrow> string option"
  secretSync :: "'r \<Rightarrow> string \<times> 'r"
  create :: "string \<Rightarrow> 'r \<Rightarrow> string \<times> 'r"
  verify :: "string \<Rightarrow> string \<Rightarrow> bool"

text \<open>\<open>SetupMiddlewareArgs\<close> and \<open>MiddlewareArgs\<close> of \<open>types.ts\<close>.\<close>

record SetupMiddlewareArgs =
  tokenKey :: string
  cookieOptions :: cookie_options
  secret :: "string option"

record MiddlewareArgs = SetupMiddlewareArgs +
  ignoredMethods :: "string list"
  csrfErrorMessage :: string

section \<open>Utilities\<close>

text \<open>\<open>String.prototype.toLowerCase\<close> on ASCII letters.\<close>

definition toLowerCase :: "string \<Rightarrow> string" where
  "toLowerCase s =
     map (\<lambda>c. case map_of (zip ''ABCDEFGHIJKLMNOPQRSTUVWXYZ'' ''abcdefghijklmnopqrstuvwxyz'') c of
                 Some l \<Rightarrow> l
               | None \<Rightarrow> c) s"

text \<open>
  \<open>getCookie\<close> (\<open>utils/get-cookie.ts\<close>): the value of the named cookie, \<open>null\<close> when
  there is no cookie header or the parsed header has no such own property. The sources
  also hold the earlier version of the file, which returns \<open>parsedCookie[name] || ''\<close>
  and the empty string without a cookie header: \<open>getCookie_or_empty\<close>.
\<close>

definition getCookie :: "'r prims \<Rightarrow> request \<Rightarrow> string \<Rightarrow> string option" where
  "getCookie p req name =
     (case cookie req of
        Some c \<Rightarrow>
          (let parsedCookie = parse p c in
           if name \<in> dom parsedCookie then parsedCookie name else None)
      | None \<Rightarrow> None)"

definition getCookie_or_empty :: "'r prims \<Rightarrow> request \<Rightarrow> string \<Rightarrow> string" where
  "getCookie_or_empty p req name =
     (case cookie req of
        Some c \<Rightarrow> (case parse p c name of Some v \<Rightarrow> v | None \<Rightarrow> [])
      | None \<Rightarrow> [])"

text \<open>\<open>getSecret\<close> (\<open>utils/get-secret.ts\<close>) looks the lower-cased name up.\<close>

definition getSecret :: "'r prims \<Rightarrow> request \<Rightarrow> string \<Rightarrow> string option" where
  "getSecret p req tokenKey' = getCookie p req (toLowerCase tokenKey')"

section \<open>The setup middleware\<close>

text \<open>
  The arguments of the wrapped setup handler: \<open>(req, res)\<close> of an API route
  (\<open>args.length > 1\<close>) or the single context of \<open>getServerSideProps\<close>, from which
  \<open>req\<close> and \<open>res\<close> are taken.
\<close>

datatype SetupArgs = ApiArgs request | ContextArgs request

fun args_req :: "SetupArgs \<Rightarrow> request" where
  "args_req (ApiArgs req) = req"
| "args_req (ContextArgs req) = req"

text \<open>
  \<open>getSecret(req, 'csrfSecret') || createToken.secretSync()\<close>: the right operand is
  evaluated only when the left one is \<open>null\<close> or the empty string.
\<close>

definition setup_secret :: "'r prims \<Rightarrow> request \<Rightarrow> 'r \<Rightarrow> string \<times> 'r" where
  "setup_secret p req r =
     (case getSecret p req ''csrfSecret'' of
        None \<Rightarrow> secretSync p r
      | Some s \<Rightarrow> if s = [] then secretSync p r else (s, r))"

text \<open>
  The wrapped setup handler has no \<open>try\<close>: the two \<open>serialize\<close> calls are the
  elements of the array argument of \<open>res.setHeader\<close>, evaluated in order before the
  call, so when one of them throws no header is written, the handler is not invoked and
  the promise rejects with that error, as it does when the awaited handler throws.
\<close>

definition setup_middleware ::
  "handler \<Rightarrow> SetupMiddlewareArgs \<Rightarrow> 'r prims \<Rightarrow> SetupArgs \<Rightarrow> 'r \<Rightarrow> 'r outcome" where
  "setup_middleware handler a p args r =
     (let req = args_req args;
          (csrfSecret, r1) = setup_secret p req r;
          (unsignedToken, r2) = create p csrfSecret r1;
          token = (case secret a of Some k \<Rightarrow> sign p unsignedToken k | None \<Rightarrow> unsignedToken)
      in case serialize p ''csrfSecret'' csrfSecret (cookieOptions a) of
           Inl e \<Rightarrow> \<lparr>calls = [], rng = r2, completion = Rejected e\<rparr>
         | Inr secretCookie \<Rightarrow>
             (case serialize p (tokenKey a) token (cookieOptions a) of
                Inl e \<Rightarrow> \<lparr>calls = [], rng = r2, completion = Rejected e\<rparr>
              | Inr tokenCookie \<Rightarrow>
                  (let written = [SetHeader ''Set-Cookie'' (Multiple [secretCookie, tokenCookie])]
                   in \<lparr>calls = written @ [Invoke], rng = r2,
                       completion = (case handler req written of
                                       None \<Rightarrow> Resolved
                                     | Some e \<Rightarrow> Rejected e)\<rparr>)))"

section \<open>The csrf middleware\<close>

text \<open>
  The checks of the \<open>try\<close> block of \<open>csrf\<close>, from the method check up to and
  including \<open>createToken.verify\<close>, in the order of the source: each throws
  \<open>new HttpError(403, csrfErrorMessage)\<close>; otherwise the method is found ignored, or
  the secret of the verified request is handed on. \<open>!token\<close> holds of \<open>undefined\<close>
  and of the empty string, and so for \<open>csrfSecret\<close> and \<open>unsignedToken\<close>.
  \<open>csrf_verify\<close> is the last check, which the signed and the unsigned path share.
\<close>

datatype checked = Ignored | Verified string

definition csrf_verify :: "'m MiddlewareArgs_scheme \<Rightarrow> 'r prims \<Rightarrow> string \<Rightarrow> string \<Rightarrow> thrown + checked" where
  "csrf_verify a p csrfSecret token =
     (if \<not> verify p csrfSecret token then Inl (HttpError (Some 403) (csrfErrorMessage a))
      else Inr (Verified csrfSecret))"

definition csrf_checks :: "'m MiddlewareArgs_scheme \<Rightarrow> 'r prims \<Rightarrow> request \<Rightarrow> thrown + checked" where
  "csrf_checks a p req =
     (case method_of req of
        None \<Rightarrow> Inl (HttpError (Some 403) (csrfErrorMessage a))
      | Some m \<Rightarrow>
          if m \<in> set (ignoredMethods a) then Inr Ignored
          else
            (case cookie req of
               None \<Rightarrow> Inl (HttpError (Some 403) (csrfErrorMessage a))
             | Some c \<Rightarrow>
                 (case parse p c (tokenKey a) of
                    None \<Rightarrow> Inl (HttpError (Some 403) (csrfErrorMessage a))
                  | Some token \<Rightarrow>
                      if token = [] then Inl (HttpError (Some 403) (csrfErrorMessage a))
                      else
                        (case parse p c ''csrfSecret'' of
                           None \<Rightarrow> Inl (HttpError (Some 403) (csrfErrorMessage a))
                         | Some csrfSecret \<Rightarrow>
                             if csrfSecret = [] then Inl (HttpError (Some 403) (csrfErrorMessage a))
                             else
                               (case secret a of
                                  Some k \<Rightarrow>
                                    (case unsign p token k of
                                       None \<Rightarrow> Inl (HttpError (Some 403) (csrfErrorMessage a))
                                     | Some unsignedToken \<Rightarrow>
                                         if unsignedToken = []
                                         then Inl (HttpError (Some 403) (csrfErrorMessage a))
                                         else csrf_verify a p csrfSecret unsignedToken)
                                | None \<Rightarrow> csrf_verify a p csrfSecret token)))))"

text \<open>
  The whole \<open>try\<close> block: the calls made, the random source, and the error thrown inside
  it, by a check, by \<open>serialize\<close> or by the awaited handler. After an ignored method
  the handler is awaited at once; after the checks a new token is created from the secret,
  signed when \<open>secret != null\<close>, serialized and written with one \<open>setHeader\<close> before
  the handler is awaited. When \<open>serialize\<close> throws, neither the header write nor the
  handler call is reached.
\<close>

definition csrf_try ::
  "handler \<Rightarrow> 'm MiddlewareArgs_scheme \<Rightarrow> 'r prims \<Rightarrow> request \<Rightarrow> 'r \<Rightarrow> (call list \<times> 'r) \<times> thrown option" where
  "csrf_try handler a p req r =
     (case csrf_checks a p req of
        Inl e \<Rightarrow> (([], r), Some e)
      | Inr Ignored \<Rightarrow> (([Invoke], r), handler req [])
      | Inr (Verified csrfSecret) \<Rightarrow>
          (let (created, r1) = create p csrfSecret r;
               newToken = (case secret a of Some k \<Rightarrow> sign p created k | None \<Rightarrow> created)
           in case serialize p (tokenKey a) newToken (cookieOptions a) of
                Inl e \<Rightarrow> (([], r1), Some e)
              | Inr tokenCookie \<Rightarrow>
                  (let written = [SetHeader ''Set-Cookie'' (Single tokenCookie)]
                   in ((written @ [Invoke], r1), handler req written))))"

text \<open>
  The \<open>catch\<close> block: \<open>res.status(httpError.status ?? 500).json({ message:
  httpError.message })\<close>.
\<close>

definition csrf_catch :: "thrown \<Rightarrow> call list \<times> completion" where
  "csrf_catch e =
     (case e of
        ErrorObject status message \<Rightarrow>
          ([Status (case status of Some s \<Rightarrow> s | None \<Rightarrow> 500), Json message], Resolved)
      | Nullish \<Rightarrow> ([], RejectedTypeError))"

definition csrf ::
  "handler \<Rightarrow> 'm MiddlewareArgs_scheme \<Rightarrow> 'r prims \<Rightarrow> request \<Rightarrow> 'r \<Rightarrow> 'r outcome" where
  "csrf handler a p req r =
     (case csrf_try handler a p req r of
        ((done, r1), None) \<Rightarrow> \<lparr>calls = done, rng = r1, completion = Resolved\<rparr>
      | ((done, r1), Some e) \<Rightarrow>
          (let (answer, settled) = csrf_catch e
           in \<lparr>calls = done @ answer, rng = r1, completion = settled\<rparr>))"

section \<open>nextCsrf\<close>

text \<open>
  \<open>NextCsrfOptions\<close>: every key is optional. A key of the object the caller passes is
  left out (\<open>Absent\<close>), present with the value \<open>undefined\<close>, which the optional type
  admits (\<open>Undefined\<close>), or present with a value (\<open>Given\<close>).
\<close>

datatype 'a given = Absent | Undefined | Given 'a

record NextCsrfOptions =
  user_ignoredMethods :: "string list given"
  user_csrfErrorMessage :: "string given"
  user_tokenKey :: "string given"
  user_cookieOptions :: "cookie_options given"
  user_secret :: "string given"

text \<open>The default argument \<open>userOptions = {}\<close>.\<close>

definition noOptions :: NextCsrfOptions where
  "noOptions = \<lparr>user_ignoredMethods = Absent, user_csrfErrorMessage = Absent,
                 user_tokenKey = Absent, user_cookieOptions = Absent, user_secret = Absent\<rparr>"

text \<open>
  \<open>cookieDefaultOptions\<close>; \<open>node_env\<close> is \<open>process.env.NODE_ENV\<close>.
\<close>

definition cookieDefaultOptions :: "string option \<Rightarrow> cookie_options" where
  "cookieDefaultOptions node_env =
     \<lparr>httpOnly = Some True, path = Some ''/'', sameSite = Some Lax,
      secure = Some (node_env = Some ''production''), domain = None, maxAge = None\<rparr>"

text \<open>\<open>defaultOptions\<close>, which has no \<open>secret\<close>.\<close>

definition defaultOptions :: "string option \<Rightarrow> MiddlewareArgs" where
  "defaultOptions node_env =
     \<lparr>tokenKey = ''XSRF-TOKEN'', cookieOptions = cookieDefaultOptions node_env, secret = None,
      ignoredMethods = [''GET'', ''HEAD'', ''OPTIONS''], csrfErrorMessage = ''Invalid CSRF token''\<rparr>"

text \<open>
  The merged \<open>options\<close> are \<open>{ ...defaultOptions, ...userOptions }\<close>: every own key
  of \<open>userOptions\<close> is copied over the default of that key, as a whole and also when its
  value is \<open>undefined\<close>; a key that is left out keeps the default. So a property of
  \<open>options\<close> is a value or \<open>undefined\<close> (\<open>None\<close>).
\<close>

record MergedOptions =
  merged_tokenKey :: "string option"
  merged_cookieOptions :: "cookie_options option"
  merged_secret :: "string option"
  merged_ignoredMethods :: "string list option"
  merged_csrfErrorMessage :: "string option"

definition options :: "string option \<Rightarrow> NextCsrfOptions \<Rightarrow> MergedOptions" where
  "options node_env userOptions =
     \<lparr>merged_tokenKey =
        (case user_tokenKey userOptions of
           Absent \<Rightarrow> Some (tokenKey (defaultOptions node_env))
         | Undefined \<Rightarrow> None
         | Given v \<Rightarrow> Some v),
      merged_cookieOptions =
        (case user_cookieOptions userOptions of
           Absent \<Rightarrow> Some (cookieOptions (defaultOptions node_env))
         | Undefined \<Rightarrow> None
         | Given v \<Rightarrow> Some v),
      merged_secret =
        (case user_secret userOptions of
           Absent \<Rightarrow> secret (defaultOptions node_env)
         | Undefined \<Rightarrow> None
         | Given v \<Rightarrow> Some v),
      merged_ignoredMethods =
        (case user_ignoredMethods userOptions of
           Absent \<Rightarrow> Some (ignoredMethods (defaultOptions node_env))
         | Undefined \<Rightarrow> None
         | Given v \<Rightarrow> Some v),
      merged_csrfErrorMessage =
        (case user_csrfErrorMessage userOptions of
           Absent \<Rightarrow> Some (csrfErrorMessage (defaultOptions node_env))
         | Undefined \<Rightarrow> None
         | Given v \<Rightarrow> Some v)\<rparr>"

text \<open>
  \<open>userOptions.secret\<close>, as \<open>nextCsrf\<close> reads it for both middlewares: \<open>undefined\<close>
  when the key is left out or present as \<open>undefined\<close>.
\<close>

definition userOptions_secret :: "NextCsrfOptions \<Rightarrow> string option" where
  "userOptions_secret userOptions =
     (case user_secret userOptions of Absent \<Rightarrow> None | Undefined \<Rightarrow> None | Given k \<Rightarrow> Some k)"

text \<open>
  \<open>nextCsrf\<close> hands the properties of \<open>options\<close> to \<open>setup\<close> and \<open>csrf\<close>, whose
  argument types (\<open>SetupMiddlewareArgs\<close>, \<open>MiddlewareArgs\<close>) require \<open>tokenKey\<close>,
  \<open>cookieOptions\<close>, \<open>ignoredMethods\<close> and \<open>csrfErrorMessage\<close> to be values. The
  middlewares are modelled on arguments of these types; a wrapped handler built from a
  property that is \<open>undefined\<close> runs outside them and has no outcome here (\<open>None\<close>).
\<close>

record 'r NextCSRF =
  setup_of :: "handler \<Rightarrow> SetupArgs \<Rightarrow> 'r \<Rightarrow> 'r outcome option"
  csrf_of :: "handler \<Rightarrow> request \<Rightarrow> 'r \<Rightarrow> 'r outcome option"

definition nextCsrf :: "string option \<Rightarrow> 'r prims \<Rightarrow> NextCsrfOptions \<Rightarrow> 'r NextCSRF" where
  "nextCsrf node_env p userOptions =
     (let opts = options node_env userOptions in
      \<lparr>setup_of = (\<lambda>handler args r.
          case merged_tokenKey opts of
            None \<Rightarrow> None
          | Some tk \<Rightarrow>
              (case merged_cookieOptions opts of
                 None \<Rightarrow> None
               | Some co \<Rightarrow>
                   Some (setup_middleware handler
                           \<lparr>tokenKey = tk, cookieOptions = co,
                            secret = userOptions_secret userOptions\<rparr> p args r))),
       csrf_of = (\<lambda>handler req r.
          case merged_tokenKey opts of
            None \<Rightarrow> None
          | Some tk \<Rightarrow>
              (case merged_csrfErrorMessage opts of
                 None \<Rightarrow> None
               | Some msg \<Rightarrow>
                   (case merged_ignoredMethods opts of
                      None \<Rightarrow> None
                    | Some ms \<Rightarrow>
                        (case merged_cookieOptions opts of
                           None \<Rightarrow> None
                         | Some co \<Rightarrow>
                             Some (csrf handler
                                     \<lparr>tokenKey = tk, cookieOptions = co,
                                      secret = userOptions_secret userOptions,
                                      ignoredMethods = ms, csrfErrorMessage = msg\<rparr>
                                     p req r)))))\<rparr>)"

section \<open>A concrete instance\<close>

text \<open>
  Small stand-ins for the imported packages, used to run the middleware on concrete
  requests. A cookie header is split at \<open>;\<close>, each item at its first \<open>=\<close>, and the
  first value of a name wins; \<open>serialize\<close> refuses an empty name, as the \<open>cookie\<close>
  package does (\<open>argument name is invalid\<close>), and a name with \<open>=\<close> in it; a signed value is the
  value, a dot and a tag made of the key and the value; a token is a salt, a dash and the
  secret; the random source is a counter.
\<close>

fun split_items :: "string \<Rightarrow> string \<Rightarrow> string list" where
  "split_items acc [] = [rev acc]"
| "split_items acc (c # cs) =
     (if c = CHR '';'' then rev acc # split_items [] cs else split_items (c # acc) cs)"

definition item_pair :: "string \<Rightarrow> (string \<times> string) option" where
  "item_pair item =
     (let s = dropWhile (\<lambda>c. c = CHR '' '') item in
      case dropWhile (\<lambda>c. c \<noteq> CHR ''='') s of
        [] \<Rightarrow> None
      | _ # v \<Rightarrow> Some (takeWhile (\<lambda>c. c \<noteq> CHR ''='') s, v))"

definition example_parse :: "string \<Rightarrow> (string \<rightharpoonup> string)" where
  "example_parse s = map_of (List.map_filter item_pair (split_items [] s))"

definition example_serialize :: "string \<Rightarrow> string \<Rightarrow> cookie_options \<Rightarrow> thrown + string" where
  "example_serialize name val opts =
     (if name = [] \<or> CHR ''='' \<in> set name
      then Inl (ErrorObject None (Some ''argument name is invalid''))
      else Inr (name @ ''='' @ val
                  @ (case path opts of Some d \<Rightarrow> ''; Path='' @ d | None \<Rightarrow> [])
                  @ (if httpOnly opts = Some True then ''; HttpOnly'' else [])))"

text \<open>The name of the cookie that a directive sets: what stands before the first \<open>=\<close>.\<close>

definition directive_name :: "string \<Rightarrow> string" where
  "directive_name d = takeWhile (\<lambda>c. c \<noteq> CHR ''='') d"

definition example_sign :: "string \<Rightarrow> string \<Rightarrow> string" where
  "example_sign val k = val @ ''.'' @ rev (k @ val)"

definition example_unsign :: "string \<Rightarrow> string \<Rightarrow> string option" where
  "example_unsign input k =
     (let n = (length input - Suc (length k)) div 2 in
      if example_sign (take n input) k = input then Some (take n input) else None)"

definition example_prims :: "nat prims" where
  "example_prims =
     \<lparr>parse = example_parse,
      serialize = example_serialize,
      sign = example_sign,
      unsign = example_unsign,
      secretSync = (\<lambda>r. (''fresh'' @ replicate r CHR ''+'', Suc r)),
      create = (\<lambda>s r. (replicate (Suc r) CHR ''t'' @ ''-'' @ s, Suc r)),
      verify = (\<lambda>s t. dropWhile (\<lambda>c. c \<noteq> CHR ''-'') t = CHR ''-'' # s)\<rparr>"

definition ok_handler :: handler where
  "ok_handler req res = None"

definition failing_handler :: handler where
  "failing_handler req res = Some (ErrorObject None (Some ''boom''))"

definition picky_handler :: handler where
  "picky_handler req res =
     (if res = [] then None else Some (ErrorObject (Some 418) (Some ''teapot'')))"

definition post_no_cookie :: request where
  "post_no_cookie = \<lparr>method_of = Some ''POST'', cookie = None\<rparr>"

definition post_with_cookies :: request where
  "post_with_cookies = \<lparr>method_of = Some ''POST'', cookie = Some ''csrfSecret=abc; XSRF-TOKEN=t-abc''\<rparr>"

definition no_method_with_cookies :: request where
  "no_method_with_cookies = \<lparr>method_of = None, cookie = Some ''csrfSecret=abc; XSRF-TOKEN=t-abc''\<rparr>"

definition post_without_token :: request where
  "post_without_token = \<lparr>method_of = Some ''POST'', cookie = Some ''csrfSecret=abc''\<rparr>"

definition post_without_secret :: request where
  "post_without_secret = \<lparr>method_of = Some ''POST'', cookie = Some ''XSRF-TOKEN=t-abc''\<rparr>"

definition post_with_wrong_token :: request where
  "post_with_wrong_token =
     \<lparr>method_of = Some ''POST'', cookie = Some ''csrfSecret=abc; XSRF-TOKEN=t-xyz''\<rparr>"

definition secure_only_options :: cookie_options where
  "secure_only_options =
     \<lparr>httpOnly = None, path = None, sameSite = None, secure = Some True, domain = None,
      maxAge = None\<rparr>"

definition only_secure :: NextCsrfOptions where
  "only_secure = noOptions\<lparr>user_cookieOptions := Given secure_only_options\<rparr>"

definition custom_options :: NextCsrfOptions where
  "custom_options =
     \<lparr>user_ignoredMethods = Given [''GET'', ''OPTIONS''],
      user_csrfErrorMessage = Given ''Custom error message'',
      user_tokenKey = Given ''MY-CSRF-TOKEN'',
      user_cookieOptions = Undefined,
      user_secret = Given ''my-secret-key''\<rparr>"

definition default_setup_args :: SetupMiddlewareArgs where
  "default_setup_args =
     \<lparr>tokenKey = ''XSRF-TOKEN'', cookieOptions = cookieDefaultOptions None, secret = None\<rparr>"

definition unnamed_setup_args :: SetupMiddlewareArgs where
  "unnamed_setup_args = default_setup_args\<lparr>tokenKey := []\<rparr>"

definition unnamed_token_args :: MiddlewareArgs where
  "unnamed_token_args = (defaultOptions None)\<lparr>tokenKey := []\<rparr>"

definition post_with_unnamed_token :: request where
  "post_with_unnamed_token =
     \<lparr>method_of = Some ''POST'', cookie = Some ''csrfSecret=abc; =t-abc''\<rparr>"

definition get_with_secret :: request where
  "get_with_secret = \<lparr>method_of = Some ''GET'', cookie = Some ''csrfSecret=abc''\<rparr>"

section \<open>The outcomes of the checks\<close>

text \<open>
  Every error the checks throw is \<open>new HttpError(403, csrfErrorMessage)\<close>; the three
  outcomes of the checks fix what the wrapped handler does.
\<close>

lemma csrf_checks_thrown:
  "csrf_checks a p req = Inl e \<Longrightarrow> e = ErrorObject (Some 403) (Some (csrfErrorMessage a))"
  by (auto simp: csrf_checks_def csrf_verify_def HttpError_def
           split: option.splits if_splits)

lemma csrf_rejected:
  assumes "csrf_checks a p req = Inl e"
  shows "csrf handler a p req r =
           \<lparr>calls = [Status 403, Json (Some (csrfErrorMessage a))], rng = r, completion = Resolved\<rparr>"
proof -
  have e: "e = ErrorObject (Some 403) (Some (csrfErrorMessage a))"
    using assms by (rule csrf_checks_thrown)
  have "csrf_try handler a p req r = (([], r), Some e)"
    using assms by (simp add: csrf_try_def)
  then show ?thesis
    by (simp add: csrf_def csrf_catch_def e)
qed

lemma csrf_ignored:
  assumes "csrf_checks a p req = Inr Ignored"
  shows "csrf handler a p req r =
           (case handler req [] of
              None \<Rightarrow> \<lparr>calls = [Invoke], rng = r, completion = Resolved\<rparr>
            | Some e \<Rightarrow> \<lparr>calls = Invoke # fst (csrf_catch e), rng = r,
                          completion = snd (csrf_catch e)\<rparr>)"
  using assms by (simp add: csrf_def csrf_try_def split: option.splits prod.splits)

text \<open>
  The token that a verified request gets: created from its secret and signed when a
  signing key is configured.
\<close>

lemma csrf_verified:
  assumes "csrf_checks a p req = Inr (Verified s)"
      and "serialize p (tokenKey a)
             (case secret a of Some k \<Rightarrow> sign p (fst (create p s r)) k
                             | None \<Rightarrow> fst (create p s r))
             (cookieOptions a) = Inr tokenCookie"
  shows "csrf handler a p req r =
           (case handler req [SetHeader ''Set-Cookie'' (Single tokenCookie)] of
              None \<Rightarrow> \<lparr>calls = [SetHeader ''Set-Cookie'' (Single tokenCookie), Invoke],
                        rng = snd (create p s r), completion = Resolved\<rparr>
            | Some e \<Rightarrow> \<lparr>calls = SetHeader ''Set-Cookie'' (Single tokenCookie) # Invoke
                                    # fst (csrf_catch e),
                          rng = snd (create p s r), completion = snd (csrf_catch e)\<rparr>)"
  using assms
  by (simp add: csrf_def csrf_try_def Let_def case_prod_unfold split: option.splits prod.splits)

lemma csrf_refused:
  assumes "csrf_checks a p req = Inr (Verified s)"
      and "serialize p (tokenKey a)
             (case secret a of Some k \<Rightarrow> sign p (fst (create p s r)) k
                             | None \<Rightarrow> fst (create p s r))
             (cookieOptions a) = Inl e"
  shows "csrf handler a p req r =
           \<lparr>calls = fst (csrf_catch e), rng = snd (create p s r), completion = snd (csrf_catch e)\<rparr>"
  using assms
  by (simp add: csrf_def csrf_try_def Let_def case_prod_unfold split: option.splits prod.splits)

lemma csrf_catch_no_header: "SetHeader n v \<notin> set (fst (csrf_catch e))"
  by (cases e) (simp_all add: csrf_catch_def)

lemma csrf_catch_no_invoke: "Invoke \<notin> set (fst (csrf_catch e))"
  by (cases e) (simp_all add: csrf_catch_def)

lemma csrf_checks_Ignored_iff:
  "csrf_checks a p req = Inr Ignored \<longleftrightarrow> (\<exists>m. method_of req = Some m \<and> m \<in> set (ignoredMethods a))"
  by (auto simp: csrf_checks_def csrf_verify_def split: option.splits if_splits)

lemma csrf_checks_Verified_iff:
  "csrf_checks a p req = Inr (Verified s) \<longleftrightarrow>
     (\<exists>m c token. method_of req = Some m \<and> m \<notin> set (ignoredMethods a) \<and> cookie req = Some c \<and>
        parse p c (tokenKey a) = Some token \<and> token \<noteq> [] \<and>
        parse p c ''csrfSecret'' = Some s \<and> s \<noteq> [] \<and>
        (case secret a of
           None \<Rightarrow> verify p s token
         | Some k \<Rightarrow> (\<exists>u. unsign p token k = Some u \<and> u \<noteq> [] \<and> verify p s u)))"
  by (auto simp: csrf_checks_def csrf_verify_def split: option.splits if_splits)

text \<open>
  The requests on which the checks throw: the method is not a string, or it is not
  ignored and the cookie header is missing, the token cookie or the secret cookie is
  missing or empty, the signature is invalid (with a signing key), or the token does not
  verify against the secret.
\<close>

lemma csrf_checks_Inl_iff:
  "(\<exists>e. csrf_checks a p req = Inl e) \<longleftrightarrow>
     method_of req = None \<or>
     (\<exists>m. method_of req = Some m \<and> m \<notin> set (ignoredMethods a) \<and>
        (cookie req = None \<or>
         (\<exists>c. cookie req = Some c \<and>
            (parse p c (tokenKey a) = None \<or> parse p c (tokenKey a) = Some [] \<or>
             parse p c ''csrfSecret'' = None \<or> parse p c ''csrfSecret'' = Some [] \<or>
             (\<exists>token s. parse p c (tokenKey a) = Some token \<and> parse p c ''csrfSecret'' = Some s \<and>
                (case secret a of
                   None \<Rightarrow> \<not> verify p s token
                 | Some k \<Rightarrow>
                     unsign p token k = None \<or> unsign p token k = Some [] \<or>
                     (\<exists>u. unsign p token k = Some u \<and> \<not> verify p s u)))))))"
  by (auto simp: csrf_checks_def csrf_verify_def split: option.splits if_splits)

lemma csrf_caught:
  assumes "csrf_try handler a p req r = ((before, r1), Some (ErrorObject status message))"
  shows "csrf handler a p req r =
           \<lparr>calls = before @ [Status (case status of Some s \<Rightarrow> s | None \<Rightarrow> 500), Json message],
            rng = r1, completion = Resolved\<rparr>"
  using assms by (simp add: csrf_def csrf_catch_def)

section \<open>The concrete requests\<close>

text \<open>
  What the stand-ins compute on the cookie headers of the concrete requests;
  \<open>post_with_cookies\<close> carries a secret and a token that verifies against it.
\<close>

lemma parse_post_with_cookies:
  "example_parse ''csrfSecret=abc; XSRF-TOKEN=t-abc'' ''csrfSecret'' = Some ''abc''"
  "example_parse ''csrfSecret=abc; XSRF-TOKEN=t-abc'' ''XSRF-TOKEN'' = Some ''t-abc''"
  by (simp_all add: example_parse_def item_pair_def)

lemma parse_get_with_secret:
  "example_parse ''csrfSecret=abc'' ''csrfSecret'' = Some ''abc''"
  "example_parse ''csrfSecret=abc'' ''csrfsecret'' = None"
  by (simp_all add: example_parse_def item_pair_def)

lemma checks_post_with_cookies:
  "csrf_checks (defaultOptions None) example_prims post_with_cookies = Inr (Verified ''abc'')"
  by (simp add: csrf_checks_def csrf_verify_def defaultOptions_def example_prims_def
        post_with_cookies_def parse_post_with_cookies)

lemma serialize_post_with_cookies:
  "serialize example_prims (tokenKey (defaultOptions None))
     (case secret (defaultOptions None) of
        Some k \<Rightarrow> sign example_prims (fst (create example_prims ''abc'' 0)) k
      | None \<Rightarrow> fst (create example_prims ''abc'' 0))
     (cookieOptions (defaultOptions None))
   = Inr ''XSRF-TOKEN=t-abc; Path=/; HttpOnly''"
  by (simp add: example_prims_def defaultOptions_def cookieDefaultOptions_def
        example_serialize_def)

lemma parse_other_cookies:
  "example_parse ''csrfSecret=abc'' ''XSRF-TOKEN'' = None"
  "example_parse ''XSRF-TOKEN=t-abc'' ''XSRF-TOKEN'' = Some ''t-abc''"
  "example_parse ''XSRF-TOKEN=t-abc'' ''csrfSecret'' = None"
  "example_parse ''csrfSecret=abc; XSRF-TOKEN=t-xyz'' ''XSRF-TOKEN'' = Some ''t-xyz''"
  "example_parse ''csrfSecret=abc; XSRF-TOKEN=t-xyz'' ''csrfSecret'' = Some ''abc''"
  by (simp_all add: example_parse_def item_pair_def)

lemma unsign_unsigned_token: "example_unsign ''t-abc'' ''k'' = None"
  by (simp add: example_unsign_def example_sign_def)

lemma parse_unnamed_token:
  "example_parse ''csrfSecret=abc; =t-abc'' ''csrfSecret'' = Some ''abc''"
  "example_parse ''csrfSecret=abc; =t-abc'' [] = Some ''t-abc''"
  by (simp_all add: example_parse_def item_pair_def)

lemma checks_post_with_unnamed_token:
  "csrf_checks unnamed_token_args example_prims post_with_unnamed_token = Inr (Verified ''abc'')"
  by (simp add: csrf_checks_def csrf_verify_def unnamed_token_args_def defaultOptions_def
        example_prims_def post_with_unnamed_token_def parse_unnamed_token)

lemma directive_name_example:
  "example_serialize n v opts = Inr d \<Longrightarrow> directive_name d = n"
  by (auto simp: example_serialize_def directive_name_def takeWhile_tail takeWhile_eq_all_conv
           split: if_splits)

lemma post_with_cookies_served:
  "csrf ok_handler (defaultOptions None) example_prims post_with_cookies 0
     = \<lparr>calls = [SetHeader ''Set-Cookie'' (Single ''XSRF-TOKEN=t-abc; Path=/; HttpOnly''), Invoke],
        rng = 1, completion = Resolved\<rparr>"
  using csrf_verified [OF checks_post_with_cookies serialize_post_with_cookies, of ok_handler]
  by (simp add: ok_handler_def example_prims_def)

lemma refused_unnamed_token:
  "serialize example_prims (tokenKey unnamed_token_args)
     (case secret unnamed_token_args of
        Some k \<Rightarrow> sign example_prims (fst (create example_prims ''abc'' 0)) k
      | None \<Rightarrow> fst (create example_prims ''abc'' 0))
     (cookieOptions unnamed_token_args)
   = Inl (ErrorObject None (Some ''argument name is invalid''))"
  by (simp add: example_prims_def unnamed_token_args_def example_serialize_def)

lemma post_with_unnamed_token_answered:
  "csrf ok_handler unnamed_token_args example_prims post_with_unnamed_token 0
     = \<lparr>calls = [Status 500, Json (Some ''argument name is invalid'')], rng = 1,
        completion = Resolved\<rparr>"
  using csrf_refused [OF checks_post_with_unnamed_token refused_unnamed_token, of ok_handler]
  by (simp add: csrf_catch_def example_prims_def)

section \<open>The setup middleware: the cookies written\<close>

text \<open>
  The secret that setup uses comes from the cookie named \<open>csrfsecret\<close>: \<open>getSecret\<close>
  lower-cases the name \<open>'csrfSecret'\<close> before the lookup. With the earlier
  \<open>getCookie\<close> the choice between the cookie and a new secret is the same.
\<close>

lemma setup_secret_lookup:
  "setup_secret p req r =
     (case cookie req of
        None \<Rightarrow> secretSync p r
      | Some c \<Rightarrow>
          (case parse p c ''csrfsecret'' of
             None \<Rightarrow> secretSync p r
           | Some s \<Rightarrow> if s = [] then secretSync p r else (s, r)))"
  by (auto simp: setup_secret_def getSecret_def getCookie_def toLowerCase_def Let_def
           split: option.splits)

lemma setup_secret_or_empty:
  "setup_secret p req r =
     (let s = getCookie_or_empty p req (toLowerCase ''csrfSecret'') in
      if s = [] then secretSync p r else (s, r))"
  by (auto simp: setup_secret_def getSecret_def getCookie_def getCookie_or_empty_def Let_def
           split: option.splits)

text \<open>
  The outcome of setup, by what \<open>serialize\<close> returns for the two cookies.
\<close>

lemma setup_outcome:
  assumes "setup_secret p (args_req args) r = (csrfSecret, r1)"
      and "create p csrfSecret r1 = (unsignedToken, r2)"
  shows "setup_middleware handler a p args r =
     (case serialize p ''csrfSecret'' csrfSecret (cookieOptions a) of
        Inl e \<Rightarrow> \<lparr>calls = [], rng = r2, completion = Rejected e\<rparr>
      | Inr secretCookie \<Rightarrow>
          (case serialize p (tokenKey a)
                  (case secret a of Some k \<Rightarrow> sign p unsignedToken k | None \<Rightarrow> unsignedToken)
                  (cookieOptions a) of
             Inl e \<Rightarrow> \<lparr>calls = [], rng = r2, completion = Rejected e\<rparr>
           | Inr tokenCookie \<Rightarrow>
               \<lparr>calls = [SetHeader ''Set-Cookie'' (Multiple [secretCookie, tokenCookie]), Invoke],
                rng = r2,
                completion =
                  (case handler (args_req args)
                          [SetHeader ''Set-Cookie'' (Multiple [secretCookie, tokenCookie])] of
                     None \<Rightarrow> Resolved
                   | Some e \<Rightarrow> Rejected e)\<rparr>))"
  using assms by (simp add: setup_middleware_def Let_def split: sum.splits)

text \<open>
  C7, as the code has it. An invocation of the setup middleware, with either shape of
  arguments, in which \<open>serialize\<close> returns for both cookies makes one header write,
  \<open>Set-Cookie\<close> with two directives: the one serialized under the name \<open>csrfSecret\<close>
  for the secret and the one serialized under the configured token cookie name for the
  token created from that secret, signed with the configured key when there is one and as
  created otherwise; both are serialized with the configured cookie attributes, and the
  handler is invoked after the write. When \<open>serialize\<close> refuses one of the two, no
  header is written, the handler is not invoked and the wrapped handler rejects with the
  error of \<open>serialize\<close>.
\<close>

theorem setup_emits_two_cookies:
  "\<exists>csrfSecret r1 token.
     setup_secret p (args_req args) r = (csrfSecret, r1)
     \<and> token = (case secret a of
                  Some k \<Rightarrow> sign p (fst (create p csrfSecret r1)) k
                | None \<Rightarrow> fst (create p csrfSecret r1))
     \<and> (\<forall>secretCookie tokenCookie.
          serialize p ''csrfSecret'' csrfSecret (cookieOptions a) = Inr secretCookie \<and>
          serialize p (tokenKey a) token (cookieOptions a) = Inr tokenCookie \<longrightarrow>
          calls (setup_middleware handler a p args r) =
            [SetHeader ''Set-Cookie'' (Multiple [secretCookie, tokenCookie]), Invoke])
     \<and> (\<forall>e. serialize p ''csrfSecret'' csrfSecret (cookieOptions a) = Inl e \<or>
             (\<exists>secretCookie.
                serialize p ''csrfSecret'' csrfSecret (cookieOptions a) = Inr secretCookie \<and>
                serialize p (tokenKey a) token (cookieOptions a) = Inl e) \<longrightarrow>
          calls (setup_middleware handler a p args r) = [] \<and>
          completion (setup_middleware handler a p args r) = Rejected e)"
proof -
  obtain csrfSecret r1 where s: "setup_secret p (args_req args) r = (csrfSecret, r1)"
    by (cases "setup_secret p (args_req args) r")
  obtain unsignedToken r2 where c: "create p csrfSecret r1 = (unsignedToken, r2)"
    by (cases "create p csrfSecret r1")
  let ?token = "case secret a of
                  Some k \<Rightarrow> sign p (fst (create p csrfSecret r1)) k
                | None \<Rightarrow> fst (create p csrfSecret r1)"
  have t: "?token = (case secret a of Some k \<Rightarrow> sign p unsignedToken k | None \<Rightarrow> unsignedToken)"
    by (cases "secret a") (simp_all add: c)
  note run = setup_outcome [OF s c, of handler a, folded t]
  have "calls (setup_middleware handler a p args r) =
          [SetHeader ''Set-Cookie'' (Multiple [secretCookie, tokenCookie]), Invoke]"
    if "serialize p ''csrfSecret'' csrfSecret (cookieOptions a) = Inr secretCookie"
       "serialize p (tokenKey a) ?token (cookieOptions a) = Inr tokenCookie"
    for secretCookie tokenCookie
    using that by (simp add: run)
  moreover
  have "calls (setup_middleware handler a p args r) = [] \<and>
        completion (setup_middleware handler a p args r) = Rejected e"
    if "serialize p ''csrfSecret'' csrfSecret (cookieOptions a) = Inl e \<or>
        (\<exists>secretCookie.
           serialize p ''csrfSecret'' csrfSecret (cookieOptions a) = Inr secretCookie \<and>
           serialize p (tokenKey a) ?token (cookieOptions a) = Inl e)"
    for e
    using that by (auto simp: run)
  ultimately show ?thesis
    using s by blast
qed

lemma setup_secret_post_no_cookie:
  "setup_secret example_prims (args_req (ApiArgs post_no_cookie)) 0 = (''fresh'', 1)"
  by (simp add: setup_secret_lookup post_no_cookie_def example_prims_def)

lemma create_fresh:
  "create example_prims ''fresh'' 1 = (''tt-fresh'', 2)"
  "create example_prims ''fresh'' (Suc 0) = (''tt-fresh'', 2)"
  by (simp_all add: example_prims_def numeral_2_eq_2)

text \<open>
  The instance: the default configuration on a request without cookies writes the two
  cookies; with an empty token cookie name, which \<open>serialize\<close> refuses, nothing is
  written.
\<close>

theorem setup_emits_two_cookies_witness:
  "calls (setup_middleware ok_handler default_setup_args example_prims (ApiArgs post_no_cookie) 0)
     = [SetHeader ''Set-Cookie'' (Multiple
          [''csrfSecret=fresh; Path=/; HttpOnly'', ''XSRF-TOKEN=tt-fresh; Path=/; HttpOnly'']),
        Invoke]
   \<and> calls (setup_middleware ok_handler unnamed_setup_args example_prims (ApiArgs post_no_cookie) 0)
     = []"
proof -
  have first: "serialize example_prims ''csrfSecret'' ''fresh'' (cookieOptions default_setup_args)
                 = Inr ''csrfSecret=fresh; Path=/; HttpOnly''"
    by (simp add: example_prims_def default_setup_args_def cookieDefaultOptions_def
          example_serialize_def)
  have second: "serialize example_prims (tokenKey default_setup_args) ''tt-fresh''
                  (cookieOptions default_setup_args)
                 = Inr ''XSRF-TOKEN=tt-fresh; Path=/; HttpOnly''"
    by (simp add: example_prims_def default_setup_args_def cookieDefaultOptions_def
          example_serialize_def)
  have first': "serialize example_prims ''csrfSecret'' ''fresh'' (cookieOptions unnamed_setup_args)
                 = Inr ''csrfSecret=fresh; Path=/; HttpOnly''"
    by (simp add: example_prims_def unnamed_setup_args_def default_setup_args_def
          cookieDefaultOptions_def example_serialize_def)
  have refused: "serialize example_prims (tokenKey unnamed_setup_args) ''tt-fresh''
                  (cookieOptions unnamed_setup_args)
                 = Inl (ErrorObject None (Some ''argument name is invalid''))"
    by (simp add: example_prims_def unnamed_setup_args_def example_serialize_def)
  have plain: "secret default_setup_args = None" "secret unnamed_setup_args = None"
    by (simp_all add: unnamed_setup_args_def default_setup_args_def)
  have "calls (setup_middleware ok_handler default_setup_args example_prims
                 (ApiArgs post_no_cookie) 0)
     = [SetHeader ''Set-Cookie'' (Multiple
          [''csrfSecret=fresh; Path=/; HttpOnly'', ''XSRF-TOKEN=tt-fresh; Path=/; HttpOnly'']),
        Invoke]"
    using setup_emits_two_cookies
      [of example_prims "ApiArgs post_no_cookie" 0 default_setup_args ok_handler]
    unfolding setup_secret_post_no_cookie
    by (auto simp: create_fresh plain first second)
  moreover
  have "calls (setup_middleware ok_handler unnamed_setup_args example_prims
                 (ApiArgs post_no_cookie) 0) = []"
    using setup_emits_two_cookies
      [of example_prims "ApiArgs post_no_cookie" 0 unnamed_setup_args ok_handler]
    unfolding setup_secret_post_no_cookie
    by (auto simp: create_fresh plain first' refused)
  ultimately show ?thesis by simp
qed

text \<open>
  C7 as stated fails: with the token cookie name \<open>''\<close> the second \<open>serialize\<close>
  call throws \<open>TypeError: argument name is invalid\<close>, so \<open>res.setHeader\<close> is never
  called, no directive is emitted, the handler is not invoked and the wrapped handler
  rejects.
\<close>

theorem setup_refused_counterexample:
  "setup_middleware ok_handler unnamed_setup_args example_prims (ApiArgs post_no_cookie) 0
     = \<lparr>calls = [], rng = 2,
        completion = Rejected (ErrorObject None (Some ''argument name is invalid''))\<rparr>"
proof -
  have first: "serialize example_prims ''csrfSecret'' ''fresh'' (cookieOptions unnamed_setup_args)
                 = Inr ''csrfSecret=fresh; Path=/; HttpOnly''"
    by (simp add: example_prims_def unnamed_setup_args_def default_setup_args_def
          cookieDefaultOptions_def example_serialize_def)
  have refused: "serialize example_prims (tokenKey unnamed_setup_args)
                  (case secret unnamed_setup_args of
                     Some k \<Rightarrow> sign example_prims ''tt-fresh'' k
                   | None \<Rightarrow> ''tt-fresh'')
                  (cookieOptions unnamed_setup_args)
                 = Inl (ErrorObject None (Some ''argument name is invalid''))"
    by (simp add: example_prims_def unnamed_setup_args_def example_serialize_def)
  show ?thesis
    unfolding setup_outcome [OF setup_secret_post_no_cookie create_fresh(1)] first refused
    by simp
qed

text \<open>
  C1 on a concrete request. The request carries the cookie \<open>csrfSecret=abc\<close>, as an
  earlier setup response would have set it. The lookup under \<open>csrfsecret\<close> finds
  nothing, so \<open>secretSync\<close> is called and the \<open>csrfSecret\<close> directive holds the new
  secret \<open>fresh\<close> instead of \<open>abc\<close>.
\<close>

theorem setup_regenerates_secret:
  "cookie get_with_secret = Some ''csrfSecret=abc''
   \<and> getCookie example_prims get_with_secret ''csrfSecret'' = Some ''abc''
   \<and> secretSync example_prims 0 = (''fresh'', 1)
   \<and> map_option calls
        (setup_of (nextCsrf None example_prims noOptions) ok_handler (ApiArgs get_with_secret) 0)
      = Some [SetHeader ''Set-Cookie'' (Multiple
                [''csrfSecret=fresh; Path=/; HttpOnly'', ''XSRF-TOKEN=tt-fresh; Path=/; HttpOnly'']),
              Invoke]"
proof -
  have c: "cookie get_with_secret = Some ''csrfSecret=abc''"
    by (simp add: get_with_secret_def)
  have g: "getCookie example_prims get_with_secret ''csrfSecret'' = Some ''abc''"
    by (simp add: getCookie_def c example_prims_def parse_get_with_secret dom_def)
  have f: "secretSync example_prims 0 = (''fresh'', 1)"
    by (simp add: example_prims_def)
  have "setup_secret example_prims get_with_secret 0 = secretSync example_prims 0"
    by (simp add: setup_secret_lookup c example_prims_def parse_get_with_secret)
  then have s: "setup_secret example_prims (args_req (ApiArgs get_with_secret)) 0 = (''fresh'', 1)"
    using f by simp
  have first: "serialize example_prims ''csrfSecret'' ''fresh'' (cookieDefaultOptions None)
                 = Inr ''csrfSecret=fresh; Path=/; HttpOnly''"
    by (simp add: example_prims_def cookieDefaultOptions_def example_serialize_def)
  have second: "serialize example_prims ''XSRF-TOKEN'' ''tt-fresh'' (cookieDefaultOptions None)
                 = Inr ''XSRF-TOKEN=tt-fresh; Path=/; HttpOnly''"
    by (simp add: example_prims_def cookieDefaultOptions_def example_serialize_def)
  have "map_option calls
        (setup_of (nextCsrf None example_prims noOptions) ok_handler (ApiArgs get_with_secret) 0)
      = Some [SetHeader ''Set-Cookie'' (Multiple
                [''csrfSecret=fresh; Path=/; HttpOnly'', ''XSRF-TOKEN=tt-fresh; Path=/; HttpOnly'']),
              Invoke]"
    by (simp add: nextCsrf_def Let_def options_def defaultOptions_def noOptions_def
          userOptions_secret_def setup_outcome [OF s create_fresh(1)] first second)
  with c g f show ?thesis by simp
qed

section \<open>The csrf middleware: exempt methods and the method check\<close>

text \<open>
  C4. When the request method is one of the ignored methods, the csrf middleware invokes
  the handler with the request and the untouched response and writes no header itself,
  whatever the cookies of the request are (the cookie header is not read at all). What
  follows the invocation is only the answer of the catch block, when the handler throws.
\<close>

theorem csrf_ignored_method:
  assumes "method_of req = Some m" and "m \<in> set (ignoredMethods a)"
  shows "csrf handler a p req r =
           (case handler req [] of
              None \<Rightarrow> \<lparr>calls = [Invoke], rng = r, completion = Resolved\<rparr>
            | Some e \<Rightarrow> \<lparr>calls = Invoke # fst (csrf_catch e), rng = r,
                          completion = snd (csrf_catch e)\<rparr>)
         \<and> (\<forall>n v. SetHeader n v \<notin> set (calls (csrf handler a p req r)))"
proof -
  have ign: "csrf_checks a p req = Inr Ignored"
    using assms by (simp add: csrf_checks_Ignored_iff)
  have run: "csrf handler a p req r =
           (case handler req [] of
              None \<Rightarrow> \<lparr>calls = [Invoke], rng = r, completion = Resolved\<rparr>
            | Some e \<Rightarrow> \<lparr>calls = Invoke # fst (csrf_catch e), rng = r,
                          completion = snd (csrf_catch e)\<rparr>)"
    using ign by (rule csrf_ignored)
  have "SetHeader n v \<notin> set (calls (csrf handler a p req r))" for n v
    unfolding run by (cases "handler req []") (simp_all add: csrf_catch_no_header)
  with run show ?thesis by blast
qed

text \<open>
  The instance: ignored methods \<open>GET\<close> and \<open>POST\<close>, a \<open>POST\<close> request without
  cookies.
\<close>

theorem csrf_ignored_method_witness:
  "method_of post_no_cookie = Some ''POST''
   \<and> ''POST'' \<in> set (ignoredMethods ((defaultOptions None)\<lparr>ignoredMethods := [''GET'', ''POST'']\<rparr>))
   \<and> csrf ok_handler ((defaultOptions None)\<lparr>ignoredMethods := [''GET'', ''POST'']\<rparr>)
        example_prims post_no_cookie 0
      = \<lparr>calls = [Invoke], rng = 0, completion = Resolved\<rparr>"
  using csrf_ignored_method [of post_no_cookie "''POST''"
      "(defaultOptions None)\<lparr>ignoredMethods := [''GET'', ''POST'']\<rparr>" ok_handler example_prims 0]
  by (simp add: post_no_cookie_def ok_handler_def)

text \<open>
  C3, as the code has it. A request whose method is not a string does not proceed to the
  cookie checks: the first statement of the \<open>try\<close> block throws
  \<open>new HttpError(403, csrfErrorMessage)\<close>, so the request is answered with status 403
  and the configured message, and the handler is not invoked, whatever its cookies are.
\<close>

theorem csrf_rejects_missing_method:
  assumes "method_of req = None"
  shows "csrf handler a p req r =
           \<lparr>calls = [Status 403, Json (Some (csrfErrorMessage a))], rng = r, completion = Resolved\<rparr>"
proof -
  have "csrf_checks a p req = Inl (HttpError (Some 403) (csrfErrorMessage a))"
    using assms by (simp add: csrf_checks_def)
  then show ?thesis by (rule csrf_rejected)
qed

text \<open>The instance: a request without a method that carries valid cookies.\<close>

theorem csrf_rejects_missing_method_witness:
  "method_of no_method_with_cookies = None
   \<and> csrf ok_handler (defaultOptions None) example_prims no_method_with_cookies 0
      = \<lparr>calls = [Status 403, Json (Some ''Invalid CSRF token'')], rng = 0, completion = Resolved\<rparr>"
  using csrf_rejects_missing_method
      [of no_method_with_cookies ok_handler "defaultOptions None" example_prims 0]
  by (simp add: no_method_with_cookies_def defaultOptions_def)

text \<open>
  C3 as stated fails: the two requests below carry the same, valid cookies; the one with
  method \<open>POST\<close> reaches the handler, the one without a method is rejected with 403
  before any cookie is looked at.
\<close>

theorem missing_method_counterexample:
  "method_of no_method_with_cookies = None
   \<and> cookie no_method_with_cookies = cookie post_with_cookies
   \<and> calls (csrf ok_handler (defaultOptions None) example_prims post_with_cookies 0)
      = [SetHeader ''Set-Cookie'' (Single ''XSRF-TOKEN=t-abc; Path=/; HttpOnly''), Invoke]
   \<and> calls (csrf ok_handler (defaultOptions None) example_prims no_method_with_cookies 0)
      = [Status 403, Json (Some ''Invalid CSRF token'')]"
proof -
  have "csrf_checks (defaultOptions None) example_prims no_method_with_cookies
          = Inl (HttpError (Some 403) (csrfErrorMessage (defaultOptions None)))"
    by (simp add: csrf_checks_def no_method_with_cookies_def)
  then have "csrf ok_handler (defaultOptions None) example_prims no_method_with_cookies 0
      = \<lparr>calls = [Status 403, Json (Some (csrfErrorMessage (defaultOptions None)))], rng = 0,
         completion = Resolved\<rparr>"
    by (rule csrf_rejected)
  then have rejected:
    "calls (csrf ok_handler (defaultOptions None) example_prims no_method_with_cookies 0)
      = [Status 403, Json (Some ''Invalid CSRF token'')]"
    by (simp add: defaultOptions_def)
  have same: "method_of no_method_with_cookies = None"
    "cookie no_method_with_cookies = cookie post_with_cookies"
    by (simp_all add: no_method_with_cookies_def post_with_cookies_def)
  show ?thesis
    by (simp add: post_with_cookies_served rejected same)
qed

text \<open>
  C5. With the default options (no signing key), a \<open>POST\<close> request without a cookie
  header is answered by \<open>res.status(403).json({ message: 'Invalid CSRF token' })\<close> and
  nothing else: the wrapped handler is not invoked.
\<close>

theorem csrf_default_post_without_cookie:
  "csrf_of (nextCsrf node_env p noOptions) handler \<lparr>method_of = Some ''POST'', cookie = None\<rparr> r =
     Some \<lparr>calls = [Status 403, Json (Some ''Invalid CSRF token'')], rng = r,
           completion = Resolved\<rparr>"
proof -
  let ?a = "\<lparr>tokenKey = ''XSRF-TOKEN'', cookieOptions = cookieDefaultOptions node_env,
             secret = None, ignoredMethods = [''GET'', ''HEAD'', ''OPTIONS''],
             csrfErrorMessage = ''Invalid CSRF token''\<rparr>"
  let ?req = "\<lparr>method_of = Some ''POST'', cookie = None\<rparr>"
  have "csrf_checks ?a p ?req = Inl (HttpError (Some 403) (csrfErrorMessage ?a))"
    by (simp add: csrf_checks_def)
  then have "csrf handler ?a p ?req r =
      \<lparr>calls = [Status 403, Json (Some (csrfErrorMessage ?a))], rng = r, completion = Resolved\<rparr>"
    by (rule csrf_rejected)
  then show ?thesis
    by (simp add: nextCsrf_def Let_def options_def defaultOptions_def noOptions_def
          userOptions_secret_def)
qed

section \<open>The csrf middleware: rotation\<close>

text \<open>
  C6, as the code has it. On a request that passes every check
  (\<open>csrf_checks_Verified_iff\<close> spells them out) the middleware creates a new token from
  the secret of the request's \<open>csrfSecret\<close> cookie, signs it when a signing key is
  configured, and serializes it under the configured token cookie name with the
  configured attributes. When \<open>serialize\<close> returns, there is exactly one header
  write, \<open>Set-Cookie\<close> with that single directive, and the handler is invoked next;
  nothing after it sets a header. So, a directive naming the cookie it was serialized for,
  every directive written names the token cookie, and none names \<open>csrfSecret\<close> unless
  that is the configured token cookie name. When \<open>serialize\<close> refuses the name or
  the attributes, its error is answered by the catch block: no header is written and the
  handler is not invoked.
\<close>

theorem csrf_rotates_token_only:
  assumes "csrf_checks a p req = Inr (Verified csrfSecret)"
  shows "(\<exists>c. cookie req = Some c \<and> parse p c ''csrfSecret'' = Some csrfSecret)
       \<and> (\<forall>tokenCookie.
            serialize p (tokenKey a)
              (case secret a of
                 Some k \<Rightarrow> sign p (fst (create p csrfSecret r)) k
               | None \<Rightarrow> fst (create p csrfSecret r))
              (cookieOptions a) = Inr tokenCookie \<longrightarrow>
            (\<exists>rest. calls (csrf handler a p req r) =
                      SetHeader ''Set-Cookie'' (Single tokenCookie) # Invoke # rest
                    \<and> (\<forall>n v. SetHeader n v \<notin> set rest)))
       \<and> ((\<forall>n v opts d. serialize p n v opts = Inr d \<longrightarrow> cookie_name d = n) \<and>
           tokenKey a \<noteq> ''csrfSecret'' \<longrightarrow>
            (\<forall>n v. SetHeader n v \<in> set (calls (csrf handler a p req r)) \<longrightarrow>
               (\<exists>d. v = Single d \<and> cookie_name d = tokenKey a
                    \<and> cookie_name d \<noteq> ''csrfSecret'')))
       \<and> (\<forall>e.
            serialize p (tokenKey a)
              (case secret a of
                 Some k \<Rightarrow> sign p (fst (create p csrfSecret r)) k
               | None \<Rightarrow> fst (create p csrfSecret r))
              (cookieOptions a) = Inl e \<longrightarrow>
            calls (csrf handler a p req r) = fst (csrf_catch e)
            \<and> (\<forall>n v. SetHeader n v \<notin> set (calls (csrf handler a p req r)))
            \<and> Invoke \<notin> set (calls (csrf handler a p req r)))"
proof -
  let ?token = "case secret a of
                  Some k \<Rightarrow> sign p (fst (create p csrfSecret r)) k
                | None \<Rightarrow> fst (create p csrfSecret r)"
  have secret_cookie: "\<exists>c. cookie req = Some c \<and> parse p c ''csrfSecret'' = Some csrfSecret"
    using assms unfolding csrf_checks_Verified_iff by blast
  have written: "\<exists>rest. calls (csrf handler a p req r) =
                      SetHeader ''Set-Cookie'' (Single tokenCookie) # Invoke # rest
                    \<and> (\<forall>n v. SetHeader n v \<notin> set rest)"
    if ok: "serialize p (tokenKey a) ?token (cookieOptions a) = Inr tokenCookie" for tokenCookie
  proof (cases "handler req [SetHeader ''Set-Cookie'' (Single tokenCookie)]")
    case None
    then have "calls (csrf handler a p req r) =
                 SetHeader ''Set-Cookie'' (Single tokenCookie) # Invoke # []"
      using csrf_verified [OF assms ok, of handler] by simp
    then show ?thesis by simp
  next
    case (Some e)
    then have "calls (csrf handler a p req r) =
                 SetHeader ''Set-Cookie'' (Single tokenCookie) # Invoke # fst (csrf_catch e)"
      using csrf_verified [OF assms ok, of handler] by simp
    then show ?thesis using csrf_catch_no_header by blast
  qed
  have refused: "calls (csrf handler a p req r) = fst (csrf_catch e)
            \<and> (\<forall>n v. SetHeader n v \<notin> set (calls (csrf handler a p req r)))
            \<and> Invoke \<notin> set (calls (csrf handler a p req r))"
    if no: "serialize p (tokenKey a) ?token (cookieOptions a) = Inl e" for e
    using csrf_refused [OF assms no, of handler]
    by (simp add: csrf_catch_no_header csrf_catch_no_invoke)
  have frame: "\<exists>d. v = Single d \<and> cookie_name d = tokenKey a \<and> cookie_name d \<noteq> ''csrfSecret''"
    if contract: "\<forall>n v opts d. serialize p n v opts = Inr d \<longrightarrow> cookie_name d = n"
      and other: "tokenKey a \<noteq> ''csrfSecret''"
      and mem: "SetHeader n v \<in> set (calls (csrf handler a p req r))"
    for cookie_name :: "string \<Rightarrow> string" and n v
  proof (cases "serialize p (tokenKey a) ?token (cookieOptions a)")
    case (Inl e)
    with refused mem show ?thesis by blast
  next
    case (Inr tokenCookie)
    then obtain rest where
      "calls (csrf handler a p req r) = SetHeader ''Set-Cookie'' (Single tokenCookie) # Invoke # rest"
      "\<forall>n v. SetHeader n v \<notin> set rest"
      using written by blast
    with mem have "v = Single tokenCookie" by auto
    moreover have "cookie_name tokenCookie = tokenKey a"
      using contract Inr by blast
    ultimately show ?thesis using other by simp
  qed
  show ?thesis
    using secret_cookie written refused frame by blast
qed

text \<open>
  The instance: the \<open>POST\<close> request with a matching secret and token gets the new token
  cookie, and the name of the directive written is the token cookie's.
\<close>

theorem csrf_rotates_token_only_witness:
  "csrf_checks (defaultOptions None) example_prims post_with_cookies = Inr (Verified ''abc'')
   \<and> cookie post_with_cookies = Some ''csrfSecret=abc; XSRF-TOKEN=t-abc''
   \<and> calls (csrf ok_handler (defaultOptions None) example_prims post_with_cookies 0)
      = [SetHeader ''Set-Cookie'' (Single ''XSRF-TOKEN=t-abc; Path=/; HttpOnly''), Invoke]
   \<and> directive_name ''XSRF-TOKEN=t-abc; Path=/; HttpOnly'' = ''XSRF-TOKEN''"
proof -
  have contract: "\<forall>n v opts d. serialize example_prims n v opts = Inr d \<longrightarrow> directive_name d = n"
    by (simp add: example_prims_def directive_name_example)
  have key: "tokenKey (defaultOptions None) = ''XSRF-TOKEN''"
    by (simp add: defaultOptions_def)
  have served: "calls (csrf ok_handler (defaultOptions None) example_prims post_with_cookies 0)
      = [SetHeader ''Set-Cookie'' (Single ''XSRF-TOKEN=t-abc; Path=/; HttpOnly''), Invoke]"
    by (simp add: post_with_cookies_served)
  have "directive_name ''XSRF-TOKEN=t-abc; Path=/; HttpOnly'' = ''XSRF-TOKEN''"
    using csrf_rotates_token_only [OF checks_post_with_cookies,
        where r = 0 and cookie_name = directive_name and handler = ok_handler]
      contract
    unfolding served key by simp
  moreover have "cookie post_with_cookies = Some ''csrfSecret=abc; XSRF-TOKEN=t-abc''"
    by (simp add: post_with_cookies_def)
  ultimately show ?thesis
    using served checks_post_with_cookies by simp
qed

text \<open>
  C6 as stated fails: with the token cookie name \<open>''\<close> the request below passes every
  check, \<open>serialize\<close> then throws \<open>TypeError: argument name is invalid\<close> inside the
  \<open>try\<close> block, and the request is answered with status 500 and that message: no
  \<open>Set-Cookie\<close> directive is emitted.
\<close>

theorem rotation_refused_counterexample:
  "csrf_checks unnamed_token_args example_prims post_with_unnamed_token = Inr (Verified ''abc'')
   \<and> csrf ok_handler unnamed_token_args example_prims post_with_unnamed_token 0
     = \<lparr>calls = [Status 500, Json (Some ''argument name is invalid'')], rng = 1,
        completion = Resolved\<rparr>"
  by (simp add: checks_post_with_unnamed_token post_with_unnamed_token_answered)

section \<open>The csrf middleware: rejection\<close>

text \<open>
  C8. An error object raised inside the \<open>try\<close> block is answered with its own status
  when it has one and with 500 when it has none, the body carrying its message. Each of
  the six validation failures raises \<open>new HttpError(403, csrfErrorMessage)\<close> before
  anything else has happened, so the answer is status 403 with the configured error
  message.
\<close>

theorem csrf_rejection_status:
  "(csrf_try handler a p req r = ((before, r1), Some (ErrorObject status message)) \<longrightarrow>
      csrf handler a p req r =
        \<lparr>calls = before @ [Status (case status of Some s \<Rightarrow> s | None \<Rightarrow> 500), Json message],
         rng = r1, completion = Resolved\<rparr>)
   \<and> (method_of req = None \<or>
       (\<exists>m. method_of req = Some m \<and> m \<notin> set (ignoredMethods a) \<and>
          (cookie req = None \<or>
           (\<exists>c. cookie req = Some c \<and>
              (parse p c (tokenKey a) = None \<or> parse p c (tokenKey a) = Some [] \<or>
               parse p c ''csrfSecret'' = None \<or> parse p c ''csrfSecret'' = Some [] \<or>
               (\<exists>token s. parse p c (tokenKey a) = Some token \<and>
                  parse p c ''csrfSecret'' = Some s \<and>
                  (case secret a of
                     None \<Rightarrow> \<not> verify p s token
                   | Some k \<Rightarrow>
                       unsign p token k = None \<or> unsign p token k = Some [] \<or>
                       (\<exists>u. unsign p token k = Some u \<and> \<not> verify p s u)))))))
       \<longrightarrow>
      csrf_try handler a p req r = (([], r), Some (HttpError (Some 403) (csrfErrorMessage a)))
      \<and> csrf handler a p req r =
          \<lparr>calls = [Status 403, Json (Some (csrfErrorMessage a))], rng = r,
           completion = Resolved\<rparr>)"
proof (intro conjI impI)
  assume "csrf_try handler a p req r = ((before, r1), Some (ErrorObject status message))"
  then show "csrf handler a p req r =
        \<lparr>calls = before @ [Status (case status of Some s \<Rightarrow> s | None \<Rightarrow> 500), Json message],
         rng = r1, completion = Resolved\<rparr>"
    by (rule csrf_caught)
next
  assume kinds: "method_of req = None \<or>
       (\<exists>m. method_of req = Some m \<and> m \<notin> set (ignoredMethods a) \<and>
          (cookie req = None \<or>
           (\<exists>c. cookie req = Some c \<and>
              (parse p c (tokenKey a) = None \<or> parse p c (tokenKey a) = Some [] \<or>
               parse p c ''csrfSecret'' = None \<or> parse p c ''csrfSecret'' = Some [] \<or>
               (\<exists>token s. parse p c (tokenKey a) = Some token \<and>
                  parse p c ''csrfSecret'' = Some s \<and>
                  (case secret a of
                     None \<Rightarrow> \<not> verify p s token
                   | Some k \<Rightarrow>
                       unsign p token k = None \<or> unsign p token k = Some [] \<or>
                       (\<exists>u. unsign p token k = Some u \<and> \<not> verify p s u)))))))"
  then obtain e where e: "csrf_checks a p req = Inl e"
    unfolding csrf_checks_Inl_iff [symmetric] by blast
  then have "e = HttpError (Some 403) (csrfErrorMessage a)"
    by (simp add: csrf_checks_thrown HttpError_def)
  with e show "csrf_try handler a p req r = (([], r), Some (HttpError (Some 403) (csrfErrorMessage a)))"
    by (simp add: csrf_try_def)
  from e show "csrf handler a p req r =
          \<lparr>calls = [Status 403, Json (Some (csrfErrorMessage a))], rng = r,
           completion = Resolved\<rparr>"
    by (rule csrf_rejected)
qed

text \<open>
  One request for each of the six failures: no method, no cookie header, no token cookie,
  no secret cookie, an unsigned token under a signing key, a token of another secret.
\<close>

theorem csrf_rejection_status_witness:
  "csrf ok_handler (defaultOptions None) example_prims no_method_with_cookies 0
     = \<lparr>calls = [Status 403, Json (Some ''Invalid CSRF token'')], rng = 0, completion = Resolved\<rparr>
   \<and> csrf ok_handler (defaultOptions None) example_prims post_no_cookie 0
     = \<lparr>calls = [Status 403, Json (Some ''Invalid CSRF token'')], rng = 0, completion = Resolved\<rparr>
   \<and> csrf ok_handler (defaultOptions None) example_prims post_without_token 0
     = \<lparr>calls = [Status 403, Json (Some ''Invalid CSRF token'')], rng = 0, completion = Resolved\<rparr>
   \<and> csrf ok_handler (defaultOptions None) example_prims post_without_secret 0
     = \<lparr>calls = [Status 403, Json (Some ''Invalid CSRF token'')], rng = 0, completion = Resolved\<rparr>
   \<and> csrf ok_handler ((defaultOptions None)\<lparr>secret := Some ''k''\<rparr>) example_prims post_with_cookies 0
     = \<lparr>calls = [Status 403, Json (Some ''Invalid CSRF token'')], rng = 0, completion = Resolved\<rparr>
   \<and> csrf ok_handler (defaultOptions None) example_prims post_with_wrong_token 0
     = \<lparr>calls = [Status 403, Json (Some ''Invalid CSRF token'')], rng = 0, completion = Resolved\<rparr>"
proof (intro conjI)
  show "csrf ok_handler (defaultOptions None) example_prims no_method_with_cookies 0
     = \<lparr>calls = [Status 403, Json (Some ''Invalid CSRF token'')], rng = 0, completion = Resolved\<rparr>"
    using csrf_rejection_status [of ok_handler "defaultOptions None" example_prims
        no_method_with_cookies 0]
    by (simp add: no_method_with_cookies_def defaultOptions_def)
  show "csrf ok_handler (defaultOptions None) example_prims post_no_cookie 0
     = \<lparr>calls = [Status 403, Json (Some ''Invalid CSRF token'')], rng = 0, completion = Resolved\<rparr>"
    using csrf_rejection_status [of ok_handler "defaultOptions None" example_prims
        post_no_cookie 0]
    by (simp add: post_no_cookie_def defaultOptions_def)
  show "csrf ok_handler (defaultOptions None) example_prims post_without_token 0
     = \<lparr>calls = [Status 403, Json (Some ''Invalid CSRF token'')], rng = 0, completion = Resolved\<rparr>"
    using csrf_rejection_status [of ok_handler "defaultOptions None" example_prims
        post_without_token 0]
    by (simp add: post_without_token_def defaultOptions_def example_prims_def
          parse_other_cookies)
  show "csrf ok_handler (defaultOptions None) example_prims post_without_secret 0
     = \<lparr>calls = [Status 403, Json (Some ''Invalid CSRF token'')], rng = 0, completion = Resolved\<rparr>"
    using csrf_rejection_status [of ok_handler "defaultOptions None" example_prims
        post_without_secret 0]
    by (simp add: post_without_secret_def defaultOptions_def example_prims_def
          parse_other_cookies)
  show "csrf ok_handler ((defaultOptions None)\<lparr>secret := Some ''k''\<rparr>) example_prims
          post_with_cookies 0
     = \<lparr>calls = [Status 403, Json (Some ''Invalid CSRF token'')], rng = 0, completion = Resolved\<rparr>"
    using csrf_rejection_status [of ok_handler "(defaultOptions None)\<lparr>secret := Some ''k''\<rparr>"
        example_prims post_with_cookies 0]
    by (simp add: post_with_cookies_def defaultOptions_def example_prims_def
          parse_post_with_cookies unsign_unsigned_token)
  show "csrf ok_handler (defaultOptions None) example_prims post_with_wrong_token 0
     = \<lparr>calls = [Status 403, Json (Some ''Invalid CSRF token'')], rng = 0, completion = Resolved\<rparr>"
    using csrf_rejection_status [of ok_handler "defaultOptions None" example_prims
        post_with_wrong_token 0]
    by (simp add: post_with_wrong_token_def defaultOptions_def example_prims_def
          parse_other_cookies)
qed

text \<open>
  C9. When a check throws, the middleware writes no header, does not invoke the handler
  and draws no randomness: the only calls are those of the answer. Conversely a header
  is written only on a request that passed every check, \<open>createToken.verify\<close> included.
  By \<open>csrf_checks_Inl_iff\<close> the requests on which a check throws are those of the six
  validation failures.
\<close>

theorem csrf_rejection_writes_no_cookie:
  "(csrf_checks a p req = Inl e \<longrightarrow>
      (\<forall>n v. SetHeader n v \<notin> set (calls (csrf handler a p req r)))
      \<and> Invoke \<notin> set (calls (csrf handler a p req r))
      \<and> rng (csrf handler a p req r) = r)
   \<and> (SetHeader n v \<in> set (calls (csrf handler a p req r)) \<longrightarrow>
      (\<exists>s. csrf_checks a p req = Inr (Verified s)))"
proof (intro conjI impI)
  assume "csrf_checks a p req = Inl e"
  then have run: "csrf handler a p req r =
      \<lparr>calls = [Status 403, Json (Some (csrfErrorMessage a))], rng = r, completion = Resolved\<rparr>"
    by (rule csrf_rejected)
  show "\<forall>n v. SetHeader n v \<notin> set (calls (csrf handler a p req r))"
    unfolding run by simp
  show "Invoke \<notin> set (calls (csrf handler a p req r))"
    unfolding run by simp
  show "rng (csrf handler a p req r) = r"
    unfolding run by simp
next
  assume written: "SetHeader n v \<in> set (calls (csrf handler a p req r))"
  show "\<exists>s. csrf_checks a p req = Inr (Verified s)"
  proof (cases "csrf_checks a p req")
    case (Inl e)
    then have "csrf handler a p req r =
      \<lparr>calls = [Status 403, Json (Some (csrfErrorMessage a))], rng = r, completion = Resolved\<rparr>"
      by (rule csrf_rejected)
    with written show ?thesis by simp
  next
    case (Inr c)
    show ?thesis
    proof (cases c)
      case Ignored
      with Inr have "csrf_checks a p req = Inr Ignored" by simp
      then have "csrf handler a p req r =
           (case handler req [] of
              None \<Rightarrow> \<lparr>calls = [Invoke], rng = r, completion = Resolved\<rparr>
            | Some e \<Rightarrow> \<lparr>calls = Invoke # fst (csrf_catch e), rng = r,
                          completion = snd (csrf_catch e)\<rparr>)"
        by (rule csrf_ignored)
      with written show ?thesis
        by (cases "handler req []") (simp_all add: csrf_catch_no_header)
    next
      case (Verified s)
      with Inr show ?thesis by simp
    qed
  qed
qed

text \<open>
  The instance: a token that does not verify is rejected and nothing is written; the
  request whose token verifies is the one that gets the new token cookie.
\<close>

theorem csrf_rejection_writes_no_cookie_witness:
  "csrf_checks (defaultOptions None) example_prims post_with_wrong_token
     = Inl (ErrorObject (Some 403) (Some ''Invalid CSRF token''))
   \<and> calls (csrf ok_handler (defaultOptions None) example_prims post_with_wrong_token 0)
     = [Status 403, Json (Some ''Invalid CSRF token'')]
   \<and> SetHeader ''Set-Cookie'' (Single ''XSRF-TOKEN=t-abc; Path=/; HttpOnly'')
       \<in> set (calls (csrf ok_handler (defaultOptions None) example_prims post_with_cookies 0))
   \<and> csrf_checks (defaultOptions None) example_prims post_with_cookies = Inr (Verified ''abc'')"
proof -
  have rejected: "csrf_checks (defaultOptions None) example_prims post_with_wrong_token
     = Inl (ErrorObject (Some 403) (Some ''Invalid CSRF token''))"
    by (simp add: csrf_checks_def csrf_verify_def HttpError_def post_with_wrong_token_def
          defaultOptions_def example_prims_def parse_other_cookies)
  have answer: "calls (csrf ok_handler (defaultOptions None) example_prims post_with_wrong_token 0)
     = [Status 403, Json (Some ''Invalid CSRF token'')]"
    using csrf_rejected [OF rejected, of ok_handler 0] by (simp add: defaultOptions_def)
  have rotated: "calls (csrf ok_handler (defaultOptions None) example_prims post_with_cookies 0)
      = [SetHeader ''Set-Cookie'' (Single ''XSRF-TOKEN=t-abc; Path=/; HttpOnly''), Invoke]"
    by (simp add: post_with_cookies_served)
  show ?thesis
    using csrf_rejection_writes_no_cookie [of "defaultOptions None" example_prims
        post_with_wrong_token "ErrorObject (Some 403) (Some ''Invalid CSRF token'')"
        ok_handler 0 "''Set-Cookie''" "Single ''XSRF-TOKEN=t-abc; Path=/; HttpOnly''"]
      csrf_rejection_writes_no_cookie [of "defaultOptions None" example_prims
        post_with_cookies "ErrorObject (Some 403) (Some ''Invalid CSRF token'')" ok_handler 0
        "''Set-Cookie''" "Single ''XSRF-TOKEN=t-abc; Path=/; HttpOnly''"]
    by (simp add: rejected answer rotated checks_post_with_cookies)
qed

section \<open>The csrf middleware: errors of the handler\<close>

text \<open>
  C2, as the code has it. \<open>await handler(req, res)\<close> stands inside the \<open>try\<close> block,
  on the ignored-method path and after rotation alike. So when the handler, invoked on
  the response as the middleware has left it, throws an error object, the error does not
  propagate: the catch block answers with the error's status (500 when it has none) and
  the error's message, and the wrapped handler resolves.
\<close>

theorem csrf_catches_handler_error:
  "(method_of req = Some m \<and> m \<in> set (ignoredMethods a) \<and>
    handler req [] = Some (ErrorObject status message) \<longrightarrow>
      csrf handler a p req r =
        \<lparr>calls = [Invoke, Status (case status of Some s \<Rightarrow> s | None \<Rightarrow> 500), Json message],
         rng = r, completion = Resolved\<rparr>)
   \<and> (csrf_checks a p req = Inr (Verified csrfSecret) \<and>
      serialize p (tokenKey a)
        (case secret a of
           Some k \<Rightarrow> sign p (fst (create p csrfSecret r)) k
         | None \<Rightarrow> fst (create p csrfSecret r))
        (cookieOptions a) = Inr tokenCookie \<and>
      handler req [SetHeader ''Set-Cookie'' (Single tokenCookie)]
        = Some (ErrorObject status message) \<longrightarrow>
      csrf handler a p req r =
        \<lparr>calls = [SetHeader ''Set-Cookie'' (Single tokenCookie), Invoke,
                  Status (case status of Some s \<Rightarrow> s | None \<Rightarrow> 500), Json message],
         rng = snd (create p csrfSecret r), completion = Resolved\<rparr>)"
proof (intro conjI impI)
  assume ignored: "method_of req = Some m \<and> m \<in> set (ignoredMethods a) \<and>
    handler req [] = Some (ErrorObject status message)"
  then have "csrf_checks a p req = Inr Ignored"
    by (auto simp: csrf_checks_Ignored_iff)
  then show "csrf handler a p req r =
        \<lparr>calls = [Invoke, Status (case status of Some s \<Rightarrow> s | None \<Rightarrow> 500), Json message],
         rng = r, completion = Resolved\<rparr>"
    using ignored by (simp add: csrf_ignored csrf_catch_def)
next
  assume verified: "csrf_checks a p req = Inr (Verified csrfSecret) \<and>
      serialize p (tokenKey a)
        (case secret a of
           Some k \<Rightarrow> sign p (fst (create p csrfSecret r)) k
         | None \<Rightarrow> fst (create p csrfSecret r))
        (cookieOptions a) = Inr tokenCookie \<and>
      handler req [SetHeader ''Set-Cookie'' (Single tokenCookie)]
        = Some (ErrorObject status message)"
  then show "csrf handler a p req r =
        \<lparr>calls = [SetHeader ''Set-Cookie'' (Single tokenCookie), Invoke,
                  Status (case status of Some s \<Rightarrow> s | None \<Rightarrow> 500), Json message],
         rng = snd (create p csrfSecret r), completion = Resolved\<rparr>"
    using csrf_verified [of a p req csrfSecret r tokenCookie handler]
    by (simp add: csrf_catch_def)
qed

text \<open>
  The instance: a handler that throws an error with status 418 once a header has been
  written, and not on an untouched response, on the request that passes every check; and
  a handler that throws \<open>new Error('boom')\<close> on a request with an ignored method.
\<close>

theorem csrf_catches_handler_error_witness:
  "picky_handler post_with_cookies []  = None
   \<and> picky_handler post_with_cookies
        [SetHeader ''Set-Cookie'' (Single ''XSRF-TOKEN=t-abc; Path=/; HttpOnly'')]
       = Some (ErrorObject (Some 418) (Some ''teapot''))
   \<and> csrf picky_handler (defaultOptions None) example_prims post_with_cookies 0
       = \<lparr>calls = [SetHeader ''Set-Cookie'' (Single ''XSRF-TOKEN=t-abc; Path=/; HttpOnly''),
                   Invoke, Status 418, Json (Some ''teapot'')],
          rng = 1, completion = Resolved\<rparr>
   \<and> csrf failing_handler (defaultOptions None) example_prims get_with_secret 0
       = \<lparr>calls = [Invoke, Status 500, Json (Some ''boom'')], rng = 0, completion = Resolved\<rparr>"
proof -
  have picky: "picky_handler post_with_cookies []  = None"
    "picky_handler post_with_cookies
        [SetHeader ''Set-Cookie'' (Single ''XSRF-TOKEN=t-abc; Path=/; HttpOnly'')]
       = Some (ErrorObject (Some 418) (Some ''teapot''))"
    by (simp_all add: picky_handler_def)
  have "csrf picky_handler (defaultOptions None) example_prims post_with_cookies 0
       = \<lparr>calls = [SetHeader ''Set-Cookie'' (Single ''XSRF-TOKEN=t-abc; Path=/; HttpOnly''),
                   Invoke, Status 418, Json (Some ''teapot'')],
          rng = 1, completion = Resolved\<rparr>"
    using csrf_catches_handler_error
      [where a = "defaultOptions None" and p = example_prims and req = post_with_cookies
         and csrfSecret = "''abc''" and r = 0 and handler = picky_handler
         and tokenCookie = "''XSRF-TOKEN=t-abc; Path=/; HttpOnly''"
         and status = "Some 418" and message = "Some ''teapot''"]
      checks_post_with_cookies serialize_post_with_cookies picky(2)
    by (simp add: example_prims_def)
  moreover
  have "csrf failing_handler (defaultOptions None) example_prims get_with_secret 0
       = \<lparr>calls = [Invoke, Status 500, Json (Some ''boom'')], rng = 0, completion = Resolved\<rparr>"
    using csrf_catches_handler_error
      [where a = "defaultOptions None" and p = example_prims and req = get_with_secret
         and m = "''GET''" and r = 0 and handler = failing_handler
         and status = None and message = "Some ''boom''"]
    by (simp add: get_with_secret_def defaultOptions_def failing_handler_def)
  ultimately show ?thesis
    using picky by simp
qed

text \<open>
  C2 as stated fails: the request passes every check, the handler throws an error without
  a status, and the wrapped handler resolves after \<open>res.status(500).json({ message:
  'boom' })\<close> instead of rejecting with that error.
\<close>

theorem handler_error_counterexample:
  "csrf_checks (defaultOptions None) example_prims post_with_cookies = Inr (Verified ''abc'')
   \<and> failing_handler post_with_cookies
        [SetHeader ''Set-Cookie'' (Single ''XSRF-TOKEN=t-abc; Path=/; HttpOnly'')]
       = Some (ErrorObject None (Some ''boom''))
   \<and> csrf failing_handler (defaultOptions None) example_prims post_with_cookies 0
       = \<lparr>calls = [SetHeader ''Set-Cookie'' (Single ''XSRF-TOKEN=t-abc; Path=/; HttpOnly''),
                   Invoke, Status 500, Json (Some ''boom'')],
          rng = 1, completion = Resolved\<rparr>
   \<and> completion (csrf failing_handler (defaultOptions None) example_prims post_with_cookies 0)
       \<noteq> Rejected (ErrorObject None (Some ''boom''))"
proof -
  have "csrf failing_handler (defaultOptions None) example_prims post_with_cookies 0
       = \<lparr>calls = [SetHeader ''Set-Cookie'' (Single ''XSRF-TOKEN=t-abc; Path=/; HttpOnly''),
                   Invoke, Status 500, Json (Some ''boom'')],
          rng = 1, completion = Resolved\<rparr>"
    using csrf_verified [OF checks_post_with_cookies serialize_post_with_cookies,
        of failing_handler]
    by (simp add: failing_handler_def example_prims_def csrf_catch_def)
  then show ?thesis
    by (simp add: checks_post_with_cookies failing_handler_def)
qed

section \<open>nextCsrf: merging the options\<close>

text \<open>
  C10. The options are merged key by key, each key as a whole. For \<open>tokenKey\<close>,
  \<open>csrfErrorMessage\<close>, \<open>ignoredMethods\<close> and \<open>cookieOptions\<close> alike, what the
  caller supplies replaces the default, a key present as \<open>undefined\<close> replaces it too,
  and a key left out keeps its documented default. In particular a supplied
  \<open>cookieOptions\<close> record is what both middlewares get, as it is, with no attribute
  taken from the default attributes. The signing key of both middlewares is the caller's
  \<open>secret\<close>. When the four merged values are defined, the wrapped handlers are
  \<open>setup\<close> and \<open>csrf\<close> on exactly these values.
\<close>

theorem nextCsrf_shallow_merge:
  "(user_cookieOptions u = Given co \<longrightarrow> merged_cookieOptions (options node_env u) = Some co)
   \<and> (user_cookieOptions u = Undefined \<longrightarrow> merged_cookieOptions (options node_env u) = None)
   \<and> (user_cookieOptions u = Absent \<longrightarrow>
        merged_cookieOptions (options node_env u) =
          Some \<lparr>httpOnly = Some True, path = Some ''/'', sameSite = Some Lax,
                secure = Some (node_env = Some ''production''), domain = None, maxAge = None\<rparr>)
   \<and> (user_tokenKey u = Given tk \<longrightarrow> merged_tokenKey (options node_env u) = Some tk)
   \<and> (user_tokenKey u = Undefined \<longrightarrow> merged_tokenKey (options node_env u) = None)
   \<and> (user_tokenKey u = Absent \<longrightarrow> merged_tokenKey (options node_env u) = Some ''XSRF-TOKEN'')
   \<and> (user_csrfErrorMessage u = Given msg \<longrightarrow>
        merged_csrfErrorMessage (options node_env u) = Some msg)
   \<and> (user_csrfErrorMessage u = Undefined \<longrightarrow>
        merged_csrfErrorMessage (options node_env u) = None)
   \<and> (user_csrfErrorMessage u = Absent \<longrightarrow>
        merged_csrfErrorMessage (options node_env u) = Some ''Invalid CSRF token'')
   \<and> (user_ignoredMethods u = Given ms \<longrightarrow>
        merged_ignoredMethods (options node_env u) = Some ms)
   \<and> (user_ignoredMethods u = Undefined \<longrightarrow>
        merged_ignoredMethods (options node_env u) = None)
   \<and> (user_ignoredMethods u = Absent \<longrightarrow>
        merged_ignoredMethods (options node_env u) = Some [''GET'', ''HEAD'', ''OPTIONS''])
   \<and> (user_secret u = Given k \<longrightarrow>
        merged_secret (options node_env u) = Some k \<and> userOptions_secret u = Some k)
   \<and> (user_secret u = Undefined \<or> user_secret u = Absent \<longrightarrow>
        merged_secret (options node_env u) = None \<and> userOptions_secret u = None)
   \<and> (merged_tokenKey (options node_env u) = Some tk' \<and>
      merged_cookieOptions (options node_env u) = Some co' \<longrightarrow>
        setup_of (nextCsrf node_env p u) handler args r =
          Some (setup_middleware handler
                  \<lparr>tokenKey = tk', cookieOptions = co', secret = userOptions_secret u\<rparr>
                  p args r))
   \<and> (merged_tokenKey (options node_env u) = Some tk' \<and>
      merged_cookieOptions (options node_env u) = Some co' \<and>
      merged_ignoredMethods (options node_env u) = Some ms' \<and>
      merged_csrfErrorMessage (options node_env u) = Some msg' \<longrightarrow>
        csrf_of (nextCsrf node_env p u) handler req r =
          Some (csrf handler
                  \<lparr>tokenKey = tk', cookieOptions = co', secret = userOptions_secret u,
                   ignoredMethods = ms', csrfErrorMessage = msg'\<rparr>
                  p req r))"
proof (intro conjI impI)
  show "merged_cookieOptions (options node_env u) = Some co" if "user_cookieOptions u = Given co"
    using that by (simp add: options_def)
  show "merged_cookieOptions (options node_env u) = None" if "user_cookieOptions u = Undefined"
    using that by (simp add: options_def)
  show "merged_cookieOptions (options node_env u) =
          Some \<lparr>httpOnly = Some True, path = Some ''/'', sameSite = Some Lax,
                secure = Some (node_env = Some ''production''), domain = None, maxAge = None\<rparr>"
    if "user_cookieOptions u = Absent"
    using that by (simp add: options_def defaultOptions_def cookieDefaultOptions_def)
  show "merged_tokenKey (options node_env u) = Some tk" if "user_tokenKey u = Given tk"
    using that by (simp add: options_def)
  show "merged_tokenKey (options node_env u) = None" if "user_tokenKey u = Undefined"
    using that by (simp add: options_def)
  show "merged_tokenKey (options node_env u) = Some ''XSRF-TOKEN''" if "user_tokenKey u = Absent"
    using that by (simp add: options_def defaultOptions_def)
  show "merged_csrfErrorMessage (options node_env u) = Some msg"
    if "user_csrfErrorMessage u = Given msg"
    using that by (simp add: options_def)
  show "merged_csrfErrorMessage (options node_env u) = None"
    if "user_csrfErrorMessage u = Undefined"
    using that by (simp add: options_def)
  show "merged_csrfErrorMessage (options node_env u) = Some ''Invalid CSRF token''"
    if "user_csrfErrorMessage u = Absent"
    using that by (simp add: options_def defaultOptions_def)
  show "merged_ignoredMethods (options node_env u) = Some ms"
    if "user_ignoredMethods u = Given ms"
    using that by (simp add: options_def)
  show "merged_ignoredMethods (options node_env u) = None"
    if "user_ignoredMethods u = Undefined"
    using that by (simp add: options_def)
  show "merged_ignoredMethods (options node_env u) = Some [''GET'', ''HEAD'', ''OPTIONS'']"
    if "user_ignoredMethods u = Absent"
    using that by (simp add: options_def defaultOptions_def)
  show "merged_secret (options node_env u) = Some k" if "user_secret u = Given k"
    using that by (simp add: options_def)
  show "userOptions_secret u = Some k" if "user_secret u = Given k"
    using that by (simp add: userOptions_secret_def)
  show "merged_secret (options node_env u) = None"
    if "user_secret u = Undefined \<or> user_secret u = Absent"
    using that by (auto simp: options_def defaultOptions_def)
  show "userOptions_secret u = None"
    if "user_secret u = Undefined \<or> user_secret u = Absent"
    using that by (auto simp: userOptions_secret_def)
  show "setup_of (nextCsrf node_env p u) handler args r =
          Some (setup_middleware handler
                  \<lparr>tokenKey = tk', cookieOptions = co', secret = userOptions_secret u\<rparr>
                  p args r)"
    if "merged_tokenKey (options node_env u) = Some tk' \<and>
        merged_cookieOptions (options node_env u) = Some co'"
    using that by (simp add: nextCsrf_def Let_def)
  show "csrf_of (nextCsrf node_env p u) handler req r =
          Some (csrf handler
                  \<lparr>tokenKey = tk', cookieOptions = co', secret = userOptions_secret u,
                   ignoredMethods = ms', csrfErrorMessage = msg'\<rparr>
                  p req r)"
    if "merged_tokenKey (options node_env u) = Some tk' \<and>
        merged_cookieOptions (options node_env u) = Some co' \<and>
        merged_ignoredMethods (options node_env u) = Some ms' \<and>
        merged_csrfErrorMessage (options node_env u) = Some msg'"
    using that by (simp add: nextCsrf_def Let_def)
qed

text \<open>
  The instances. With \<open>cookieOptions: { secure: true }\<close> and nothing else, the merged
  attributes have no \<open>httpOnly\<close>, \<open>path\<close> or \<open>sameSite\<close>, the token cookie name is
  the default one, and the cookies that setup writes carry neither \<open>Path\<close> nor
  \<open>HttpOnly\<close>. With a token cookie name, an error message, ignored methods and a
  signing key of the caller's and \<open>cookieOptions: undefined\<close>, the merged values are the
  caller's and the merged attributes are \<open>undefined\<close>; with the attributes left out
  instead, a \<open>POST\<close> without cookies is answered with the caller's message.
\<close>

theorem nextCsrf_shallow_merge_witness:
  "merged_cookieOptions (options None only_secure) = Some secure_only_options
   \<and> httpOnly secure_only_options = None
   \<and> path secure_only_options = None
   \<and> sameSite secure_only_options = None
   \<and> merged_tokenKey (options None only_secure) = Some ''XSRF-TOKEN''
   \<and> map_option calls
        (setup_of (nextCsrf None example_prims only_secure) ok_handler (ApiArgs post_no_cookie) 0)
      = Some [SetHeader ''Set-Cookie'' (Multiple [''csrfSecret=fresh'', ''XSRF-TOKEN=tt-fresh'']),
              Invoke]
   \<and> merged_tokenKey (options None custom_options) = Some ''MY-CSRF-TOKEN''
   \<and> merged_csrfErrorMessage (options None custom_options) = Some ''Custom error message''
   \<and> merged_ignoredMethods (options None custom_options) = Some [''GET'', ''OPTIONS'']
   \<and> merged_cookieOptions (options None custom_options) = None
   \<and> userOptions_secret custom_options = Some ''my-secret-key''
   \<and> csrf_of (nextCsrf None example_prims (custom_options\<lparr>user_cookieOptions := Absent\<rparr>))
        ok_handler post_no_cookie 0
      = Some \<lparr>calls = [Status 403, Json (Some ''Custom error message'')], rng = 0,
              completion = Resolved\<rparr>"
proof -
  note secure = nextCsrf_shallow_merge
    [where u = only_secure and co = secure_only_options and node_env = None
       and p = example_prims and handler = ok_handler and args = "ApiArgs post_no_cookie"
       and req = post_no_cookie and r = 0
       and tk = "''XSRF-TOKEN''" and msg = "''Invalid CSRF token''"
       and ms = "[''GET'', ''HEAD'', ''OPTIONS'']" and k = "''my-secret-key''"
       and tk' = "''XSRF-TOKEN''" and co' = secure_only_options
       and ms' = "[''GET'', ''HEAD'', ''OPTIONS'']" and msg' = "''Invalid CSRF token''"]
  have given: "user_cookieOptions only_secure = Given secure_only_options"
    "user_tokenKey only_secure = Absent" "user_secret only_secure = Absent"
    by (simp_all add: only_secure_def noOptions_def)
  have replaced: "merged_cookieOptions (options None only_secure) = Some secure_only_options"
    using secure given by simp
  have key: "merged_tokenKey (options None only_secure) = Some ''XSRF-TOKEN''"
    using secure given by simp
  have unsigned: "userOptions_secret only_secure = None"
    using secure given by simp
  have bare: "httpOnly secure_only_options = None" "path secure_only_options = None"
    "sameSite secure_only_options = None"
    by (simp_all add: secure_only_options_def)
  have first: "serialize example_prims ''csrfSecret'' ''fresh'' secure_only_options
                 = Inr ''csrfSecret=fresh''"
    by (simp add: example_prims_def example_serialize_def bare)
  have second: "serialize example_prims ''XSRF-TOKEN'' ''tt-fresh'' secure_only_options
                 = Inr ''XSRF-TOKEN=tt-fresh''"
    by (simp add: example_prims_def example_serialize_def bare)
  have "setup_of (nextCsrf None example_prims only_secure) ok_handler (ApiArgs post_no_cookie) 0
      = Some (setup_middleware ok_handler
                \<lparr>tokenKey = ''XSRF-TOKEN'', cookieOptions = secure_only_options, secret = None\<rparr>
                example_prims (ApiArgs post_no_cookie) 0)"
    using secure replaced key unsigned by simp
  then have written: "map_option calls
        (setup_of (nextCsrf None example_prims only_secure) ok_handler (ApiArgs post_no_cookie) 0)
      = Some [SetHeader ''Set-Cookie'' (Multiple [''csrfSecret=fresh'', ''XSRF-TOKEN=tt-fresh'']),
              Invoke]"
    by (simp add: setup_outcome [OF setup_secret_post_no_cookie create_fresh(1)] first second)
  note custom = nextCsrf_shallow_merge
    [where u = custom_options and node_env = None and p = example_prims
       and handler = ok_handler and args = "ApiArgs post_no_cookie" and req = post_no_cookie
       and r = 0 and co = secure_only_options
       and tk = "''MY-CSRF-TOKEN''" and msg = "''Custom error message''"
       and ms = "[''GET'', ''OPTIONS'']" and k = "''my-secret-key''"
       and tk' = "''MY-CSRF-TOKEN''" and co' = secure_only_options
       and ms' = "[''GET'', ''OPTIONS'']" and msg' = "''Custom error message''"]
  have supplied: "user_tokenKey custom_options = Given ''MY-CSRF-TOKEN''"
    "user_csrfErrorMessage custom_options = Given ''Custom error message''"
    "user_ignoredMethods custom_options = Given [''GET'', ''OPTIONS'']"
    "user_cookieOptions custom_options = Undefined"
    "user_secret custom_options = Given ''my-secret-key''"
    by (simp_all add: custom_options_def)
  have merged: "merged_tokenKey (options None custom_options) = Some ''MY-CSRF-TOKEN''"
    "merged_csrfErrorMessage (options None custom_options) = Some ''Custom error message''"
    "merged_ignoredMethods (options None custom_options) = Some [''GET'', ''OPTIONS'']"
    "merged_cookieOptions (options None custom_options) = None"
    "userOptions_secret custom_options = Some ''my-secret-key''"
    using custom supplied by simp_all
  let ?u = "custom_options\<lparr>user_cookieOptions := Absent\<rparr>"
  let ?a = "\<lparr>tokenKey = ''MY-CSRF-TOKEN'', cookieOptions = cookieDefaultOptions None,
             secret = Some ''my-secret-key'', ignoredMethods = [''GET'', ''OPTIONS''],
             csrfErrorMessage = ''Custom error message''\<rparr>"
  note full = nextCsrf_shallow_merge
    [where u = ?u and node_env = None and p = example_prims and handler = ok_handler
       and args = "ApiArgs post_no_cookie" and co = secure_only_options
       and req = post_no_cookie and r = 0
       and tk = "''MY-CSRF-TOKEN''" and msg = "''Custom error message''"
       and ms = "[''GET'', ''OPTIONS'']" and k = "''my-secret-key''"
       and tk' = "''MY-CSRF-TOKEN''" and co' = "cookieDefaultOptions None"
       and ms' = "[''GET'', ''OPTIONS'']" and msg' = "''Custom error message''"]
  have "csrf_of (nextCsrf None example_prims ?u) ok_handler post_no_cookie 0
      = Some (csrf ok_handler ?a example_prims post_no_cookie 0)"
    using full by (simp add: custom_options_def cookieDefaultOptions_def)
  moreover have "csrf_checks ?a example_prims post_no_cookie
                   = Inl (HttpError (Some 403) (csrfErrorMessage ?a))"
    by (simp add: csrf_checks_def post_no_cookie_def)
  then have "csrf ok_handler ?a example_prims post_no_cookie 0
      = \<lparr>calls = [Status 403, Json (Some (csrfErrorMessage ?a))], rng = 0,
         completion = Resolved\<rparr>"
    by (rule csrf_rejected)
  ultimately have answered:
    "csrf_of (nextCsrf None example_prims ?u) ok_handler post_no_cookie 0
      = Some \<lparr>calls = [Status 403, Json (Some ''Custom error message'')], rng = 0,
              completion = Resolved\<rparr>"
    by simp
  show ?thesis
    using replaced bare key written merged answered by simp
qed

end
